theory Spec2Isabelle
  imports Complex_Main "HOL-Library.AList" "HOL-Library.Code_Target_Nat"
begin

section \<open>Strings of the host language\<close>

text \<open>
  A source string is modelled as a \<open>string\<close> whose characters are the code units
  \<open>0..255\<close> (Latin-1). The ohm glyphs of \<open>OHM_CHARS\<close> lie outside that range, so on
  modelled strings \<open>replace(OHM_CHARS, "")\<close> changes nothing; the micro sign is
  \<open>CHR 0xB5\<close>. \<open>isSpace\<close> is the class \<open>\s\<close> (and the set removed by \<open>trim\<close>) within
  that range: tab, line feed, vertical tab, form feed, carriage return, space and the
  no-break space.
\<close>

definition isSpace :: "char \<Rightarrow> bool" where
  "isSpace c = (c \<in> set [CHR 0x09, CHR 0x0A, CHR 0x0B, CHR 0x0C, CHR 0x0D, CHR 0x20, CHR 0xA0])"

definition isDigit :: "char \<Rightarrow> bool" where
  "isDigit c = (c \<in> set ''0123456789'')"

definition isLower :: "char \<Rightarrow> bool" where
  "isLower c = (c \<in> set ''abcdefghijklmnopqrstuvwxyz'')"

definition isUpper :: "char \<Rightarrow> bool" where
  "isUpper c = (c \<in> set ''ABCDEFGHIJKLMNOPQRSTUVWXYZ'')"

definition isAlpha :: "char \<Rightarrow> bool" where
  "isAlpha c = (isLower c \<or> isUpper c)"

definition isSign :: "char \<Rightarrow> bool" where
  "isSign c = (c = CHR ''+'' \<or> c = CHR ''-'')"

definition isPoint :: "char \<Rightarrow> bool" where
  "isPoint c = (c = CHR ''.'')"

definition isExp :: "char \<Rightarrow> bool" where
  "isExp c = (c = CHR ''e'' \<or> c = CHR ''E'')"

text \<open>The class \<open>\w\<close>.\<close>

definition isWord :: "char \<Rightarrow> bool" where
  "isWord c = (isAlpha c \<or> isDigit c \<or> c = CHR ''_'')"

text \<open>The class \<open>.\<close>: any character but a line terminator.\<close>

definition isDot :: "char \<Rightarrow> bool" where
  "isDot c = (c \<noteq> CHR 0x0A \<and> c \<noteq> CHR 0x0D)"

text \<open>
  \<open>toUpperCase\<close> and \<open>toLowerCase\<close> on the ASCII letters. The code compares the
  results with ASCII constants only (\<open>"GND"\<close>, \<open>"BC549"\<close>, \<open>"meg"\<close>, ...), and no
  other Latin-1 character maps onto a letter of those constants, so the comparisons of
  the source come out the same.
\<close>

fun pairUp :: "string \<Rightarrow> string \<Rightarrow> char \<Rightarrow> char" where
  "pairUp (a # as) (b # bs) c = (if c = a then b else pairUp as bs c)"
| "pairUp _ _ c = c"

definition toUpperChar :: "char \<Rightarrow> char" where
  "toUpperChar = pairUp ''abcdefghijklmnopqrstuvwxyz'' ''ABCDEFGHIJKLMNOPQRSTUVWXYZ''"

definition toLowerChar :: "char \<Rightarrow> char" where
  "toLowerChar = pairUp ''ABCDEFGHIJKLMNOPQRSTUVWXYZ'' ''abcdefghijklmnopqrstuvwxyz''"

definition toUpperCase :: "string \<Rightarrow> string" where
  "toUpperCase s = map toUpperChar s"

definition toLowerCase :: "string \<Rightarrow> string" where
  "toLowerCase s = map toLowerChar s"

definition trimStart :: "string \<Rightarrow> string" where
  "trimStart s = dropWhile isSpace s"

definition trim :: "string \<Rightarrow> string" where
  "trim s = rev (dropWhile isSpace (rev (dropWhile isSpace s)))"

text \<open>\<open>s.includes(t)\<close>.\<close>

fun includesStr :: "string \<Rightarrow> string \<Rightarrow> bool" where
  "includesStr [] t = (t = [])"
| "includesStr (c # cs) t = (take (length t) (c # cs) = t \<or> includesStr cs t)"

text \<open>\<open>xs.join(sep)\<close>.\<close>

fun join :: "string \<Rightarrow> string list \<Rightarrow> string" where
  "join sep [] = []"
| "join sep [x] = x"
| "join sep (x # y # ys) = x @ sep @ join sep (y # ys)"

text \<open>\<open>s.split("\n")\<close>: the pieces between line feeds, at least one piece.\<close>

fun splitOn :: "char \<Rightarrow> string \<Rightarrow> string list" where
  "splitOn d [] = [[]]"
| "splitOn d (c # cs) =
     (case splitOn d cs of
        [] \<Rightarrow> [[c]]
      | p # ps \<Rightarrow> if c = d then [] # p # ps else (c # p) # ps)"

text \<open>\<open>s.split(/\r?\n/)\<close>: a carriage return right before a line feed goes with it.\<close>

fun splitLines :: "string \<Rightarrow> string list" where
  "splitLines [] = [[]]"
| "splitLines (c # cs) =
     (if c = CHR 0x0A then [] # splitLines cs
      else if c = CHR 0x0D \<and> cs \<noteq> [] \<and> hd cs = CHR 0x0A then [] # splitLines (tl cs)
      else (case splitLines cs of [] \<Rightarrow> [[c]] | p # ps \<Rightarrow> (c # p) # ps))"

text \<open>
  \<open>s.split(/\s+/)\<close>: the pieces between maximal runs of white space; a run at either
  end of the string leaves an empty piece there.
\<close>

fun splitSpaces :: "string \<Rightarrow> string list" where
  "splitSpaces [] = [[]]"
| "splitSpaces (c # cs) =
     (if isSpace c then (if cs \<noteq> [] \<and> isSpace (hd cs) then splitSpaces cs else [] # splitSpaces cs)
      else (case splitSpaces cs of [] \<Rightarrow> [[c]] | p # ps \<Rightarrow> (c # p) # ps))"

text \<open>Decimal digits of a natural number, as a template literal prints an index.\<close>

definition digitChar :: "nat \<Rightarrow> char" where
  "digitChar d = ''0123456789'' ! d"

fun natToString :: "nat \<Rightarrow> string" where
  "natToString n = (if n < 10 then [digitChar n] else natToString (n div 10) @ [digitChar (n mod 10)])"

declare natToString.simps [simp del]

definition digitVal :: "char \<Rightarrow> nat" where
  "digitVal c = length (takeWhile (\<lambda>d. d \<noteq> c) ''0123456789'')"

text \<open>The value of a string of decimal digits (0 for the empty string).\<close>

definition digitsVal :: "string \<Rightarrow> nat" where
  "digitsVal s = foldl (\<lambda>acc c. 10 * acc + digitVal c) 0 s"

section \<open>Numbers of the host language\<close>

text \<open>
  A number of the language is a double (IEEE 754 binary64). A finite one other than the
  negative zero is kept as the rational it denotes exactly; the positive zero is \<open>Num 0\<close>.
  The functions below only build \<open>Num x\<close> for an \<open>x\<close> that a double denotes.
\<close>

datatype jsnum = Num rat | NegZero | NaN | PosInf | NegInf

text \<open>The number of binary digits of a natural number.\<close>

fun bitLength :: "nat \<Rightarrow> nat" where
  "bitLength n = (if n = 0 then 0 else Suc (bitLength (n div 2)))"

declare bitLength.simps [simp del]

definition pow2 :: "int \<Rightarrow> rat" where
  "pow2 e = (if 0 \<le> e then 2 ^ nat e else 1 / 2 ^ nat (- e))"

text \<open>For a positive \<open>x\<close>, the exponent \<open>e\<close> with \<open>2^e \<le> x < 2^(e+1)\<close>.\<close>

definition binaryExponent :: "rat \<Rightarrow> int" where
  "binaryExponent x =
     (if 1 \<le> x then int (bitLength (nat \<lfloor>x\<rfloor>)) - 1
      else - int (bitLength (nat (\<lceil>1 / x\<rceil> - 1))))"

text \<open>The integer nearest to a rational, the even one of the two when it is half way.\<close>

definition roundHalfEven :: "rat \<Rightarrow> int" where
  "roundHalfEven n =
     (let f = \<lfloor>n\<rfloor>; d = n - of_int f
      in if d < 1 / 2 then f else if 1 / 2 < d then f + 1 else if even f then f else f + 1)"

text \<open>
  Rounding of a magnitude to the nearest double, ties to even: 53 significant binary
  digits for a normal number (exponent from -1022 to 1023), multiples of \<open>2^-1074\<close> below
  that. \<open>None\<close> is overflow: a magnitude of at least \<open>2^1024 - 2^970\<close>. A magnitude of at
  most \<open>2^-1075\<close> gives 0.
\<close>

definition roundMagnitude :: "rat \<Rightarrow> rat option" where
  "roundMagnitude x =
     (if x = 0 then Some 0
      else
        (let e = binaryExponent x
         in if 1024 \<le> e then None
            else
              (let q = max e (- 1022) - 52;
                   m = roundHalfEven (x / pow2 q)
               in if e = 1023 \<and> m = 2 ^ 53 then None else Some (of_int m * pow2 q))))"

definition signedInf :: "bool \<Rightarrow> jsnum" where
  "signedInf pos = (if pos then PosInf else NegInf)"

definition signedZero :: "bool \<Rightarrow> jsnum" where
  "signedZero pos = (if pos then Num 0 else NegZero)"

text \<open>The double of a given sign nearest to a magnitude.\<close>

definition roundSigned :: "bool \<Rightarrow> rat \<Rightarrow> jsnum" where
  "roundSigned pos x =
     (case roundMagnitude x of
        None \<Rightarrow> signedInf pos
      | Some y \<Rightarrow> if y = 0 then signedZero pos else Num (if pos then y else - y))"

text \<open>
  The double nearest to a real number: the value of a decimal literal of the program
  (\<open>1e-3\<close> is \<open>toDouble (1 / 10 ^ 3)\<close>) and of a numeric string.
\<close>

definition toDouble :: "rat \<Rightarrow> jsnum" where
  "toDouble x = roundSigned (0 \<le> x) \<bar>x\<bar>"

text \<open>\<open>Number.isFinite\<close>.\<close>

fun isFinite :: "jsnum \<Rightarrow> bool" where
  "isFinite (Num x) = True"
| "isFinite NegZero = True"
| "isFinite _ = False"

fun jneg :: "jsnum \<Rightarrow> jsnum" where
  "jneg (Num x) = (if x = 0 then NegZero else Num (- x))"
| "jneg NegZero = Num 0"
| "jneg NaN = NaN"
| "jneg PosInf = NegInf"
| "jneg NegInf = PosInf"

text \<open>The sign of a number that is not NaN, and the magnitude of a finite one.\<close>

fun positive :: "jsnum \<Rightarrow> bool" where
  "positive (Num x) = (0 \<le> x)"
| "positive NegZero = False"
| "positive NegInf = False"
| "positive _ = True"

fun magnitude :: "jsnum \<Rightarrow> rat" where
  "magnitude (Num x) = \<bar>x\<bar>"
| "magnitude _ = 0"

text \<open>The product \<open>a * b\<close>: the exact product rounded, zero times infinity is NaN.\<close>

definition jmul :: "jsnum \<Rightarrow> jsnum \<Rightarrow> jsnum" where
  "jmul a b =
     (let pos = (positive a = positive b)
      in if a = NaN \<or> b = NaN then NaN
         else if isFinite a \<and> isFinite b then roundSigned pos (magnitude a * magnitude b)
         else if (isFinite a \<and> magnitude a = 0) \<or> (isFinite b \<and> magnitude b = 0) then NaN
         else signedInf pos)"

text \<open>The quotient \<open>a / b\<close>: the exact quotient rounded.\<close>

definition jdiv :: "jsnum \<Rightarrow> jsnum \<Rightarrow> jsnum" where
  "jdiv a b =
     (let pos = (positive a = positive b)
      in if a = NaN \<or> b = NaN then NaN
         else if isFinite a \<and> isFinite b then
           (if magnitude b = 0 then (if magnitude a = 0 then NaN else signedInf pos)
            else roundSigned pos (magnitude a / magnitude b))
         else if isFinite a then signedZero pos
         else if isFinite b then signedInf pos
         else NaN)"

definition pow10 :: "int \<Rightarrow> rat" where
  "pow10 e = (if 0 \<le> e then 10 ^ nat e else 1 / 10 ^ nat (- e))"

text \<open>
  The exponent part \<open>[eE][+-]?\d+\<close> at the head of a string: its value and what
  follows it, or exponent 0 and the string itself when there is none.
\<close>

definition parseExp :: "string \<Rightarrow> int \<times> string" where
  "parseExp s =
     (case s of
        [] \<Rightarrow> (0, s)
      | c # r \<Rightarrow>
          if c = CHR ''e'' \<or> c = CHR ''E'' then
            (let neg = (r \<noteq> [] \<and> hd r = CHR ''-'');
                 r' = (if r \<noteq> [] \<and> (hd r = CHR ''+'' \<or> hd r = CHR ''-'') then tl r else r);
                 ds = takeWhile isDigit r'
             in if ds = [] then (0, s)
                else ((if neg then - int (digitsVal ds) else int (digitsVal ds)), dropWhile isDigit r'))
          else (0, s))"

text \<open>
  The longest head of a string that is an unsigned decimal literal of the language
  (\<open>Infinity\<close>, \<open>12\<close>, \<open>12.\<close>, \<open>12.5\<close>, \<open>.5\<close>, each but the first with an optional
  exponent), with its value, the double nearest to the decimal number written, and the
  rest; \<open>None\<close> when no head is one.
\<close>

definition parseUnsigned :: "string \<Rightarrow> (jsnum \<times> string) option" where
  "parseUnsigned s =
     (if take 8 s = ''Infinity'' then Some (PosInf, drop 8 s)
      else
        (let ip = takeWhile isDigit s;
             r1 = dropWhile isDigit s;
             dotted = (r1 \<noteq> [] \<and> hd r1 = CHR ''.'');
             fp = (if dotted then takeWhile isDigit (tl r1) else []);
             r2 = (if dotted then dropWhile isDigit (tl r1) else r1)
         in if ip = [] \<and> fp = [] then None
            else (case parseExp r2 of
                    (e, r3) \<Rightarrow>
                      Some (toDouble (of_nat (digitsVal (ip @ fp)) * pow10 (e - int (length fp))), r3))))"

definition parseSigned :: "string \<Rightarrow> (jsnum \<times> string) option" where
  "parseSigned s =
     (case s of
        [] \<Rightarrow> None
      | c # r \<Rightarrow>
          if c = CHR ''-'' then map_option (\<lambda>(v, t). (jneg v, t)) (parseUnsigned r)
          else if c = CHR ''+'' then parseUnsigned r
          else parseUnsigned s)"

text \<open>\<open>parseFloat(s)\<close>: leading white space is skipped, what follows the literal is ignored.\<close>

definition parseFloat :: "string \<Rightarrow> jsnum" where
  "parseFloat s = (case parseSigned (trimStart s) of None \<Rightarrow> NaN | Some (v, _) \<Rightarrow> v)"

text \<open>A literal in another base: \<open>0x1F\<close>, \<open>0o17\<close>, \<open>0b101\<close>.\<close>

definition radixDigit :: "char \<Rightarrow> nat" where
  "radixDigit c = length (takeWhile (\<lambda>d. d \<noteq> toLowerChar c) ''0123456789abcdef'')"

definition parseRadix :: "string \<Rightarrow> jsnum option" where
  "parseRadix s =
     (case s of
        z # b # ds \<Rightarrow>
          (let base = (if toLowerChar b = CHR ''x'' then 16
                       else if toLowerChar b = CHR ''o'' then 8
                       else if toLowerChar b = CHR ''b'' then 2 else (0::nat))
           in if z = CHR ''0'' \<and> base \<noteq> 0 then
                Some (if ds \<noteq> [] \<and> (\<forall>c \<in> set ds. radixDigit c < base)
                      then toDouble (of_nat (foldl (\<lambda>acc c. base * acc + radixDigit c) 0 ds))
                      else NaN)
              else None)
      | _ \<Rightarrow> None)"

text \<open>
  \<open>parseInt(s)\<close> without a radix: leading white space and a sign are skipped, the digits
  that follow are read in base 10, or in base 16 after \<open>0x\<close>, and what follows them is
  ignored.
\<close>

definition parseInt :: "string \<Rightarrow> jsnum" where
  "parseInt s =
     (let t = trimStart s;
          neg = (t \<noteq> [] \<and> hd t = CHR ''-'');
          u = (if t \<noteq> [] \<and> (hd t = CHR ''+'' \<or> hd t = CHR ''-'') then tl t else t);
          hex = (take 2 u = ''0x'' \<or> take 2 u = ''0X'');
          base = (if hex then 16 else 10);
          ds = takeWhile (\<lambda>c. radixDigit c < base) (if hex then drop 2 u else u);
          v = toDouble (of_nat (foldl (\<lambda>acc c. base * acc + radixDigit c) 0 ds))
      in if ds = [] then NaN else if neg then jneg v else v)"

text \<open>
  \<open>Number(s)\<close> on a string: white space around it is dropped, the empty string is 0,
  and anything that is not one whole numeric literal is NaN.
\<close>

definition jsNumber :: "string \<Rightarrow> jsnum" where
  "jsNumber s =
     (let t = trim s
      in if t = [] then Num 0
         else (case parseRadix t of
                 Some v \<Rightarrow> v
               | None \<Rightarrow>
                   (case parseSigned t of
                      Some (v, []) \<Rightarrow> v
                    | _ \<Rightarrow> NaN)))"

section \<open>Regular expressions\<close>

text \<open>
  The patterns of the source use a small part of the regular-expression language:
  character classes, sequence, alternative, the greedy \<open>?\<close> on any pattern, the
  greedy \<open>*\<close> and \<open>+\<close> and the lazy \<open>*?\<close> on a character class, capturing groups
  (never nested, never under a quantifier) and the end anchor \<open>$\<close>.
  \<open>rxm r s\<close> lists every way \<open>r\<close> matches a head of \<open>s\<close>, in the order in which the
  backtracking matcher of the language tries them, each with the texts captured so far and
  the rest of the input: the head of the list is the match the language reports.
\<close>

datatype rx =
    Cls "char \<Rightarrow> bool"
  | Seq rx rx
  | Alt rx rx
  | Opt rx
  | Star "char \<Rightarrow> bool"
  | Plus "char \<Rightarrow> bool"
  | Lazy "char \<Rightarrow> bool"
  | Grp rx
  | Eol

fun stars :: "(char \<Rightarrow> bool) \<Rightarrow> string \<Rightarrow> string list" where
  "stars P [] = [[]]"
| "stars P (c # cs) = (if P c then stars P cs @ [c # cs] else [c # cs])"

fun lazies :: "(char \<Rightarrow> bool) \<Rightarrow> string \<Rightarrow> string list" where
  "lazies P [] = [[]]"
| "lazies P (c # cs) = (c # cs) # (if P c then lazies P cs else [])"

fun rxm :: "rx \<Rightarrow> string \<Rightarrow> (string list \<times> string) list" where
  "rxm (Cls P) s = (case s of [] \<Rightarrow> [] | c # cs \<Rightarrow> if P c then [([], cs)] else [])"
| "rxm (Seq a b) s =
     concat (map (\<lambda>(g, r). map (\<lambda>(h, t). (g @ h, t)) (rxm b r)) (rxm a s))"
| "rxm (Alt a b) s = rxm a s @ rxm b s"
| "rxm (Opt a) s = rxm a s @ [([], s)]"
| "rxm (Star P) s = map (Pair []) (stars P s)"
| "rxm (Plus P) s = (case s of [] \<Rightarrow> [] | c # cs \<Rightarrow> if P c then map (Pair []) (stars P cs) else [])"
| "rxm (Lazy P) s = map (Pair []) (lazies P s)"
| "rxm (Grp a) s = map (\<lambda>(g, r). (g @ [take (length s - length r) s], r)) (rxm a s)"
| "rxm Eol s = (if s = [] then [([], s)] else [])"

text \<open>
  A pattern that starts with \<open>^\<close> is matched at the head of the input only
  (\<open>matchAt\<close>); any other is searched for from left to right (\<open>search\<close>). Both give the
  captured texts of the first match; \<open>searchEnd\<close> gives the input after it as well.
\<close>

definition matchAt :: "rx \<Rightarrow> string \<Rightarrow> string list option" where
  "matchAt r s = (case rxm r s of [] \<Rightarrow> None | (g, _) # _ \<Rightarrow> Some g)"

fun searchEnd :: "rx \<Rightarrow> string \<Rightarrow> (string list \<times> string) option" where
  "searchEnd r [] = (case rxm r [] of [] \<Rightarrow> None | m # _ \<Rightarrow> Some m)"
| "searchEnd r (c # cs) = (case rxm r (c # cs) of [] \<Rightarrow> searchEnd r cs | m # _ \<Rightarrow> Some m)"

definition search :: "rx \<Rightarrow> string \<Rightarrow> string list option" where
  "search r s = map_option fst (searchEnd r s)"

text \<open>A word of the pattern, letter by letter; with the flag \<open>i\<close>, letters match in either case.\<close>

fun lit :: "string \<Rightarrow> rx" where
  "lit [] = Opt Eol"
| "lit [c] = Cls (\<lambda>x. x = c)"
| "lit (c # cs) = Seq (Cls (\<lambda>x. x = c)) (lit cs)"

fun liti :: "string \<Rightarrow> rx" where
  "liti [] = Opt Eol"
| "liti [c] = Cls (\<lambda>x. toLowerChar x = toLowerChar c)"
| "liti (c # cs) = Seq (Cls (\<lambda>x. toLowerChar x = toLowerChar c)) (liti cs)"

fun seqs :: "rx list \<Rightarrow> rx" where
  "seqs [] = Opt Eol"
| "seqs [r] = r"
| "seqs (r # rs) = Seq r (seqs rs)"

section \<open>The netlist compiler (\<open>server/utils/simple-spice.ts\<close>)\<close>

subsection \<open>Net names and quantities\<close>

definition DISPLAY_ONLY_TYPES :: "string set" where
  "DISPLAY_ONLY_TYPES = {''oscilloscope'', ''node'', ''label'', ''measurement'', ''multimeter''}"

text \<open>
  \<open>NetToNodeMap\<close> is an object without prototype used as a dictionary. It is modelled as
  an association list with one entry per key, in the order in which the keys were first
  written.
\<close>

type_synonym NetToNodeMap = "(string \<times> nat) list"

text \<open>\<open>None\<close> stands for an absent (\<open>undefined\<close> or \<open>null\<close>) argument.\<close>

definition normalizeNet :: "string option \<Rightarrow> string" where
  "normalizeNet raw =
     (case raw of
        None \<Rightarrow> []
      | Some r \<Rightarrow>
          if r = [] then []
          else
            (let s = trim r; upper = toUpperCase s
             in if upper = ''0'' \<or> upper = ''GND'' \<or> upper = ''GROUND'' \<or> upper = ''AGND''
                   \<or> upper = ''DGND''
                then ''0'' else s))"

text \<open>
  The pattern of \<open>parseValue\<close>,
  \<^verbatim>\<open>^([+-]?\d*\.?\d+(?:[eE][+-]?\d+)?)([a-zA-Z\<mu>]*)$\<close>, where \<open>\<mu>\<close> stands for the micro sign.
\<close>

definition mantissaRe :: rx where
  "mantissaRe =
     seqs [Opt (Cls isSign), Star isDigit, Opt (Cls isPoint), Plus isDigit,
           Opt (seqs [Cls isExp, Opt (Cls isSign), Plus isDigit])]"

definition isSuffixChar :: "char \<Rightarrow> bool" where
  "isSuffixChar c = (isAlpha c \<or> c = CHR 0xB5)"

definition valueRe :: rx where
  "valueRe = seqs [Grp mantissaRe, Grp (Star isSuffixChar), Eol]"

definition suffixMult :: "string \<Rightarrow> jsnum" where
  "suffixMult suffix =
     (if suffix = ''t'' then toDouble (10 ^ 12)
      else if suffix = ''g'' then toDouble (10 ^ 9)
      else if suffix = ''meg'' then toDouble (10 ^ 6)
      else if suffix = ''k'' then toDouble (10 ^ 3)
      else if suffix = ''m'' then toDouble (1 / 10 ^ 3)
      else if suffix = ''u'' \<or> suffix = [CHR 0xB5] then toDouble (1 / 10 ^ 6)
      else if suffix = ''n'' then toDouble (1 / 10 ^ 9)
      else if suffix = ''p'' then toDouble (1 / 10 ^ 12)
      else if suffix = ''f'' then toDouble (1 / 10 ^ 15)
      else Num 1)"

text \<open>
  \<open>parseValue(val, fallback)\<close>. The component type declares \<open>value\<close> a string, so the
  branch for a value that is already a number is left out.
\<close>

definition parseValue :: "string option \<Rightarrow> jsnum \<Rightarrow> jsnum" where
  "parseValue val fallback =
     (case val of
        None \<Rightarrow> fallback
      | Some v \<Rightarrow>
          (let s = filter (\<lambda>c. c \<noteq> CHR ''_'' \<and> \<not> isSpace c) (trim v)
           in case matchAt valueRe s of
                Some [numStr, suffixRaw] \<Rightarrow>
                  (let num = jsNumber numStr
                   in if \<not> isFinite num then fallback
                      else jmul num (suffixMult (toLowerCase suffixRaw)))
              | _ \<Rightarrow> (let n = jsNumber s in if isFinite n then n else fallback)))"

text \<open>
  A number inside a template literal. An integer of magnitude up to \<open>2^53\<close> is printed
  with its decimal digits, and both zeros as \<open>0\<close>. Any other finite number is printed
  with the fewest digits that denote no other double; that text is given by the
  parameter \<open>fmt\<close>.
\<close>

fun numToString :: "(rat \<Rightarrow> string) \<Rightarrow> jsnum \<Rightarrow> string" where
  "numToString fmt (Num x) =
     (if x = of_int \<lfloor>x\<rfloor> \<and> \<bar>x\<bar> \<le> 2 ^ 53
      then (if x < 0 then ''-'' else []) @ natToString (nat \<bar>\<lfloor>x\<rfloor>\<bar>)
      else fmt x)"
| "numToString fmt NegZero = ''0''"
| "numToString fmt NaN = ''NaN''"
| "numToString fmt PosInf = ''Infinity''"
| "numToString fmt NegInf = ''-Infinity''"

subsection \<open>The emitter\<close>

text \<open>
  \<open>makeEmitter\<close> reserves ground in the map it is given and returns closures over that
  map. Each closure is modelled as a function that takes the map and returns it updated.
  Node indices are natural numbers; the limit on the number of arguments of
  \<open>Math.max(...used)\<close> is not modelled.
\<close>

definition makeEmitter :: "NetToNodeMap \<Rightarrow> NetToNodeMap" where
  "makeEmitter netToNodeMap = AList.update ''0'' 0 netToNodeMap"

definition touch :: "NetToNodeMap \<Rightarrow> string option \<Rightarrow> nat \<times> NetToNodeMap" where
  "touch netToNodeMap netName =
     (let n = normalizeNet (Some (case netName of None \<Rightarrow> [] | Some x \<Rightarrow> x))
      in if n = [] \<or> n = ''0'' then (0, netToNodeMap)
         else
           (case map_of netToNodeMap n of
              None \<Rightarrow>
                (let used = map snd netToNodeMap;
                     next = (if length used = 0 then 1 else Max (set used) + 1)
                 in (next, netToNodeMap @ [(n, next)]))
            | Some i \<Rightarrow> (i, netToNodeMap)))"

fun nodesOf :: "NetToNodeMap \<Rightarrow> string option list \<Rightarrow> nat list \<times> NetToNodeMap" where
  "nodesOf m [] = ([], m)"
| "nodesOf m (n # names) =
     (case touch m n of (i, m1) \<Rightarrow> (case nodesOf m1 names of (is, m2) \<Rightarrow> (i # is, m2)))"

definition res :: "(rat \<Rightarrow> string) \<Rightarrow> NetToNodeMap \<Rightarrow> string \<Rightarrow> string \<Rightarrow> string \<Rightarrow> string
    \<Rightarrow> string \<times> NetToNodeMap" where
  "res fmt m ref a b val =
     (case nodesOf m [Some a, Some b] of
        (ns, m') \<Rightarrow>
          (let ohms = parseValue (Some val) (Num 1000)
           in (''R'' @ ref @ '' '' @ natToString (ns ! 0) @ '' '' @ natToString (ns ! 1) @ '' ''
                 @ numToString fmt ohms, m')))"

definition cap :: "(rat \<Rightarrow> string) \<Rightarrow> NetToNodeMap \<Rightarrow> string \<Rightarrow> string \<Rightarrow> string \<Rightarrow> string
    \<Rightarrow> string \<times> NetToNodeMap" where
  "cap fmt m ref a b val =
     (case nodesOf m [Some a, Some b] of
        (ns, m') \<Rightarrow>
          (let f = parseValue (Some val) (toDouble (1 / 10 ^ 6))
           in (''C'' @ ref @ '' '' @ natToString (ns ! 0) @ '' '' @ natToString (ns ! 1) @ '' ''
                 @ numToString fmt f, m')))"

definition diode :: "NetToNodeMap \<Rightarrow> string \<Rightarrow> string \<Rightarrow> string \<Rightarrow> string
    \<Rightarrow> string \<times> NetToNodeMap" where
  "diode m ref a b model =
     (case nodesOf m [Some a, Some b] of
        (ns, m') \<Rightarrow>
          (''D'' @ ref @ '' '' @ natToString (ns ! 0) @ '' '' @ natToString (ns ! 1) @ '' ''
             @ model, m'))"

definition vsource :: "(rat \<Rightarrow> string) \<Rightarrow> NetToNodeMap \<Rightarrow> string \<Rightarrow> string \<Rightarrow> string \<Rightarrow> string
    \<Rightarrow> string \<times> NetToNodeMap" where
  "vsource fmt m ref p n val =
     (case nodesOf m [Some p, Some n] of
        (ns, m') \<Rightarrow>
          (let v = parseValue (Some val) (Num 5)
           in (''V'' @ ref @ '' '' @ natToString (ns ! 0) @ '' '' @ natToString (ns ! 1) @ '' DC ''
                 @ numToString fmt v, m')))"

definition npn :: "NetToNodeMap \<Rightarrow> string \<Rightarrow> string \<Rightarrow> string \<Rightarrow> string \<Rightarrow> string
    \<Rightarrow> string \<times> NetToNodeMap" where
  "npn m ref c b e model =
     (case nodesOf m [Some c, Some b, Some e] of
        (ns, m') \<Rightarrow>
          (''Q'' @ ref @ '' '' @ natToString (ns ! 0) @ '' '' @ natToString (ns ! 1) @ '' ''
             @ natToString (ns ! 2) @ '' '' @ model, m'))"

subsection \<open>Components\<close>

text \<open>
  \<open>SimpleCircuitComponent\<close>, with the fields the compiler reads. \<open>c_pins\<close> lists the pins
  under their labels in the order in which the object enumerates them.
\<close>

record pin =
  net :: string

record component =
  c_ref :: string
  c_kind :: string
  c_model :: "string option"
  c_type :: "string option"
  c_value :: "string option"
  c_pins :: "(string \<times> pin) list option"

text \<open>\<open>comp.pins?.[label]?.net\<close>.\<close>

definition pinNet :: "component \<Rightarrow> string \<Rightarrow> string option" where
  "pinNet cmp label =
     (case c_pins cmp of None \<Rightarrow> None | Some ps \<Rightarrow> map_option net (map_of ps label))"

text \<open>A string operand of \<open>&&\<close> or \<open>||\<close> counts as true when it is present and not empty.\<close>

definition truthy :: "string option \<Rightarrow> bool" where
  "truthy x = (case x of None \<Rightarrow> False | Some s \<Rightarrow> s \<noteq> [])"

text \<open>\<open>x || d\<close>.\<close>

definition orElse :: "string option \<Rightarrow> string \<Rightarrow> string" where
  "orElse x d = (case x of None \<Rightarrow> d | Some s \<Rightarrow> if s = [] then d else s)"

definition pickBjtModel :: "component \<Rightarrow> string" where
  "pickBjtModel cmp =
     (let m = toUpperCase (orElse (c_model cmp) [])
      in if includesStr m ''BC549'' then ''BC549''
         else if includesStr m ''BC337'' then ''BC337''
         else if toUpperCase (c_ref cmp) = ''Q4'' then ''BC549''
         else ''BC337'')"

text \<open>
  The case \<open>"node"\<close> of the switch: with more than one non-empty net on the pins, the first
  is touched and every other one, normalised and not ground, has its entry written over
  with the first one's index.
\<close>

fun mergeSecondary :: "nat \<Rightarrow> NetToNodeMap \<Rightarrow> string list \<Rightarrow> NetToNodeMap" where
  "mergeSecondary primaryNode m [] = m"
| "mergeSecondary primaryNode m (x # xs) =
     (let secondaryNet = normalizeNet (Some x)
      in mergeSecondary primaryNode
           (if secondaryNet \<noteq> [] \<and> secondaryNet \<noteq> ''0''
            then AList.update secondaryNet primaryNode m else m) xs)"

definition nodeCase :: "NetToNodeMap \<Rightarrow> component \<Rightarrow> NetToNodeMap" where
  "nodeCase m cmp =
     (case c_pins cmp of
        None \<Rightarrow> m
      | Some ps \<Rightarrow>
          (let connectedNets = filter (\<lambda>x. x \<noteq> []) (map (\<lambda>p. net (snd p)) ps)
           in if length connectedNets > 1 then
                (case touch m (Some (hd connectedNets)) of
                   (primaryNode, m1) \<Rightarrow> mergeSecondary primaryNode m1 (tl connectedNets))
              else m))"

text \<open>
  One turn of the loop over the components: the lines and the map before, the lines and
  the map after.
\<close>

definition emitComponent :: "(rat \<Rightarrow> string) \<Rightarrow> string list \<times> NetToNodeMap \<Rightarrow> component
    \<Rightarrow> string list \<times> NetToNodeMap" where
  "emitComponent fmt st cmp =
     (case st of
        (lines, m) \<Rightarrow>
          if c_kind cmp \<in> DISPLAY_ONLY_TYPES \<or> orElse (c_type cmp) [] \<in> DISPLAY_ONLY_TYPES
          then (lines, m)
          else if c_kind cmp = ''resistor'' then
            (let a = pinNet cmp ''1''; b = pinNet cmp ''2''
             in if truthy a \<and> truthy b then
                  (case res fmt m (orElse (Some (c_ref cmp)) ''R?'') (the a) (the b)
                          (case c_value cmp of None \<Rightarrow> ''1k'' | Some v \<Rightarrow> v) of
                     (l, m') \<Rightarrow> (lines @ [l], m'))
                else (lines, m))
          else if c_kind cmp = ''capacitor'' then
            (let a = pinNet cmp ''1''; b = pinNet cmp ''2''
             in if truthy a \<and> truthy b then
                  (case cap fmt m (orElse (Some (c_ref cmp)) ''C?'') (the a) (the b)
                          (case c_value cmp of None \<Rightarrow> ''1u'' | Some v \<Rightarrow> v) of
                     (l, m') \<Rightarrow> (lines @ [l], m'))
                else (lines, m))
          else if c_kind cmp = ''led'' \<or> c_kind cmp = ''diode'' then
            (let a = pinNet cmp ''1''; b = pinNet cmp ''2''
             in if truthy a \<and> truthy b then
                  (case diode m (orElse (Some (c_ref cmp)) ''D?'') (the a) (the b)
                          (orElse (c_model cmp) ''D1N4148'') of
                     (l, m') \<Rightarrow> (lines @ [l], m'))
                else (lines, m))
          else if c_kind cmp = ''battery'' then
            (let p = pinNet cmp ''2''; n = pinNet cmp ''1''
             in if truthy p \<and> truthy n then
                  (case vsource fmt m (orElse (Some (c_ref cmp)) ''V?'') (the p) (the n)
                          (case c_value cmp of None \<Rightarrow> ''5'' | Some v \<Rightarrow> v) of
                     (l, m') \<Rightarrow> (lines @ [l], m'))
                else (lines, m))
          else if c_kind cmp = ''transistor'' then
            (let c = pinNet cmp ''C''; b = pinNet cmp ''B''; e = pinNet cmp ''E''
             in if truthy c \<and> truthy b \<and> truthy e then
                  (case npn m (orElse (Some (c_ref cmp)) ''Q?'') (the c) (the b) (the e)
                          (pickBjtModel cmp) of
                     (l, m') \<Rightarrow> (lines @ [l], m'))
                else (lines, m))
          else if c_kind cmp = ''node'' then (lines, nodeCase m cmp)
          else (lines, m))"

subsection \<open>The deck\<close>

text \<open>
  \<open>Object.entries\<close> enumerates the keys that are array indices first, in ascending
  order, then the other keys in the order in which they were written.
\<close>

definition isIndexKey :: "string \<Rightarrow> bool" where
  "isIndexKey k =
     (k \<noteq> [] \<and> list_all isDigit k \<and> (k = ''0'' \<or> hd k \<noteq> CHR ''0'') \<and> digitsVal k < 2 ^ 32 - 1)"

definition entries :: "(string \<times> 'a) list \<Rightarrow> (string \<times> 'a) list" where
  "entries m =
     sort_key (\<lambda>e. digitsVal (fst e)) (filter (\<lambda>e. isIndexKey (fst e)) m)
       @ filter (\<lambda>e. \<not> isIndexKey (fst e)) m"

definition modelCards :: "string list" where
  "modelCards =
     [[],
      ''* --- BJT models ---'',
      ''.model BC337 NPN (IS=1e-14 BF=200 VAF=100 NF=1 RB=100 RE=1 RC=1 CJE=5p VJE=0.7 CJC=3p VJC=0.3 TF=0.3n TR=10n KF=2e-14 AF=1)'',
      ''.model BC549 NPN (IS=1e-14 BF=300 VAF=150 NF=1 RB=150 RE=1 RC=1 CJE=6p VJE=0.7 CJC=3p VJC=0.3 TF=0.25n TR=8n KF=5e-15 AF=1)'',
      [],
      ''* --- Zener models ---'',
      ''.model DZ6V8 D (IS=1e-14 N=1 BV=6.8 IBV=10u RS=10 KF=0 AF=1)'',
      ''.model DZ4V7 D (IS=1e-14 N=1 BV=4.7 IBV=10u RS=10 KF=0 AF=1)'',
      [],
      ''* Solver options for convergence stability'',
      ''.options reltol=1e-3 abstol=1e-12 vntol=1e-6'',
      ''.options gmin=1e-12 itl1=100 itl2=50'',
      ''.options temp=27 tnom=27'',
      [],
      ''* Analysis'',
      ''.control'',
      ''set filetype=ascii'',
      ''op'',
      ''print all'',
      [],
      ''* Transient analysis with proper timestep for noise'',
      ''tran 0.1us 5ms uic'']"

text \<open>The lines pushed after the loop, for the final map \<open>m\<close>.\<close>

definition closingLines :: "NetToNodeMap \<Rightarrow> string list" where
  "closingLines m =
     [[],
      ''* Zener-assisted avalanche breakdown at emitter node'',
      ''* Q1 creates BE breakdown ~6-8V, zener provides realistic breakdown for noise'']
     @ (case map_of m ''Q1E'' of
          None \<Rightarrow> []
        | Some q1eNode \<Rightarrow>
            [''DNOISE 0 '' @ natToString q1eNode @ '' DZ6V8    ; Zener emulates avalanche breakdown'',
             [],
             ''* Transient noise at Q1E node (deterministic sine for NGSpice compatibility)'',
             ''VNOISE '' @ natToString q1eNode @ '' 0 SIN(0 0.001 1000)''])
     @ modelCards
     @ (let nodeList = map (\<lambda>e. ''v('' @ natToString (snd e) @ '')'') (filter (\<lambda>e. snd e > 0) (entries m))
        in [''wrdata tran.csv time '' @ join '' '' nodeList,
            ''print time '' @ join '' '' nodeList,
            ''.endc'',
            ''.end''])"

text \<open>
  \<open>generateSimpleSpiceNetlist(components)\<close>: the deck text and the map. Nothing in the
  body of the loop throws on a component of the declared type, so the \<open>catch\<close> is never
  entered.
\<close>

definition generateSimpleSpiceNetlist :: "(rat \<Rightarrow> string) \<Rightarrow> component list \<Rightarrow> string \<times> NetToNodeMap" where
  "generateSimpleSpiceNetlist fmt components =
     (case foldl (emitComponent fmt) ([''Simple Circuit'', []], makeEmitter []) components of
        (lines, netToNodeMap) \<Rightarrow>
          (join [CHR 0x0A] (lines @ closingLines netToNodeMap), netToNodeMap))"

section \<open>The second quantity parser (\<open>server/utils/units.ts\<close>)\<close>

text \<open>
  \<open>parseSI\<close> is not called by the netlist compiler. It removes commas and spaces, then
  one final character of the class \<^verbatim>\<open>[...Ohm|ohm|F|H|V|A]\<close> (with the flag \<open>i\<close>: any of
  the letters o, h, m, f, v, a in either case, or a bar), then every \<open>ohm\<close> or \<open>ohms\<close>.
\<close>

definition isUnitEnd :: "char \<Rightarrow> bool" where
  "isUnitEnd c = (toLowerChar c \<in> set ''ohm|fva'')"

definition stripUnitEnd :: "string \<Rightarrow> string" where
  "stripUnitEnd s = (if s \<noteq> [] \<and> isUnitEnd (last s) then butlast s else s)"

fun dropOhms :: "string \<Rightarrow> string" where
  "dropOhms [] = []"
| "dropOhms (c # cs) =
     (if toLowerCase (take 4 (c # cs)) = ''ohms'' then dropOhms (drop 3 cs)
      else if toLowerCase (take 3 (c # cs)) = ''ohm'' then dropOhms (drop 2 cs)
      else c # dropOhms cs)"

text \<open>
  Its pattern is that of \<open>parseValue\<close> but for the exponent, which wants a lower-case
  \<open>e\<close>: \<^verbatim>\<open>^([-+]?\d*\.?\d+(?:e[-+]?\d+)?)([a-zA-Z\<mu>]*)$\<close>.
\<close>

definition siRe :: rx where
  "siRe =
     seqs [Grp (seqs [Opt (Cls isSign), Star isDigit, Opt (Cls isPoint), Plus isDigit,
                      Opt (seqs [Cls (\<lambda>c. c = CHR ''e''), Opt (Cls isSign), Plus isDigit])]),
           Grp (Star isSuffixChar),
           Eol]"

text \<open>
  The table \<open>map\<close> is an object literal, so a lookup also finds the members it inherits.
  A name made of letters that is such a member gives a function, and a number times a
  function is NaN.
\<close>

definition siMap :: "string \<Rightarrow> jsnum option" where
  "siMap k =
     (if k = [] then Some (Num 1)
      else if k = ''k'' \<or> k = ''K'' then Some (toDouble (10 ^ 3))
      else if k = ''m'' then Some (toDouble (1 / 10 ^ 3))
      else if k = ''M'' then Some (toDouble (10 ^ 6))
      else if k = ''u'' \<or> k = [CHR 0xB5] then Some (toDouble (1 / 10 ^ 6))
      else if k = ''n'' \<or> k = ''N'' then Some (toDouble (1 / 10 ^ 9))
      else if k = ''p'' \<or> k = ''P'' then Some (toDouble (1 / 10 ^ 12))
      else if k = ''f'' \<or> k = ''F'' then Some (toDouble (1 / 10 ^ 15))
      else if k = ''a'' \<or> k = ''A'' then Some (toDouble (1 / 10 ^ 18))
      else if k = ''g'' \<or> k = ''G'' then Some (toDouble (10 ^ 9))
      else if k = ''t'' \<or> k = ''T'' then Some (toDouble (10 ^ 12))
      else if k \<in> set [''constructor'', ''hasOwnProperty'', ''isPrototypeOf'', ''propertyIsEnumerable'',
                        ''toLocaleString'', ''toString'', ''valueOf'']
      then Some NaN
      else None)"

definition parseSI :: "string option \<Rightarrow> jsnum" where
  "parseSI raw =
     (case raw of
        None \<Rightarrow> NaN
      | Some r \<Rightarrow>
          if r = [] then NaN
          else
            (let s = dropOhms (stripUnitEnd (filter (\<lambda>c. c \<noteq> CHR '','' \<and> c \<noteq> CHR '' '') (trim r)))
             in case matchAt siRe s of
                  Some [numStr, suf] \<Rightarrow>
                    (let num = parseFloat numStr;
                         l = toLowerCase suf;
                         factor = (case siMap l of
                                     Some f \<Rightarrow> f
                                   | None \<Rightarrow> (case siMap suf of Some f \<Rightarrow> f | None \<Rightarrow> Num 1))
                     in jmul num factor)
                | _ \<Rightarrow> NaN))"

section \<open>The engine interface (\<open>server/utils/ngspice-interface.ts\<close>)\<close>

subsection \<open>Results\<close>

text \<open>
  A \<open>Record<string, T>\<close> is an association list, as the node map is. The fields of
  \<open>NgSpiceResult\<close> that no code path of this file sets (\<open>acData\<close>, \<open>noiseData\<close>) are
  left out, and its field \<open>netToNodeMap\<close> is called \<open>resultMap\<close> here.
\<close>

record transient =
  time :: "jsnum list"
  voltages :: "(string \<times> jsnum list) list"
  currents :: "(string \<times> jsnum list) list"

record NgSpiceResult =
  success :: bool
  operatingPoint :: "(string \<times> jsnum) list option"
  resultMap :: "NetToNodeMap option"
  transientData :: "transient option"
  error :: "string option"

text \<open>The empty object \<open>{}\<close> of type \<open>Partial<NgSpiceResult>\<close>; \<open>success\<close> is set when it is resolved.\<close>

definition emptyResult :: NgSpiceResult where
  "emptyResult = \<lparr>success = False, operatingPoint = None, resultMap = None, transientData = None,
     error = None\<rparr>"

subsection \<open>The rows without delimiters\<close>

text \<open>
  The patterns of \<open>tokenizeConcatenatedLine\<close>: \<^verbatim>\<open>^(\d+)(.*)$\<close> and, with the flags
  \<open>i\<close> and \<open>g\<close>, \<^verbatim>\<open>[+-]?(?:\d+\.\d+|\d+\.?\d*)(?:e[+-]?\d+)?\<close>.
\<close>

definition indexRe :: rx where
  "indexRe = seqs [Grp (Plus isDigit), Grp (Star isDot), Eol]"

definition numRe :: rx where
  "numRe =
     seqs [Opt (Cls isSign),
           Alt (seqs [Plus isDigit, Cls isPoint, Plus isDigit])
               (seqs [Plus isDigit, Opt (Cls isPoint), Star isDigit]),
           Opt (seqs [Cls isExp, Opt (Cls isSign), Plus isDigit])]"

text \<open>
  \<open>s.match(r)\<close> for a pattern with the flag \<open>g\<close>: the matched texts from left to right,
  each search starting where the match before ended (one character further after an
  empty match).
\<close>

fun matchAll :: "rx \<Rightarrow> string \<Rightarrow> string list" where
  "matchAll r [] = (case rxm r [] of [] \<Rightarrow> [] | m # _ \<Rightarrow> [[]])"
| "matchAll r (c # cs) =
     (case rxm r (c # cs) of
        [] \<Rightarrow> matchAll r cs
      | (g, rest) # _ \<Rightarrow>
          (let n = length (c # cs) - length rest
           in if n = 0 then [] # matchAll r cs
              else take n (c # cs) # matchAll r (drop (n - 1) cs)))"

definition tokenizeConcatenatedLine :: "string \<Rightarrow> (jsnum \<times> jsnum list) option" where
  "tokenizeConcatenatedLine line =
     (let s = trim line
      in if s = [] then None
         else (case matchAt indexRe s of
                 Some [ix, rest] \<Rightarrow>
                   Some (jsNumber ix, filter isFinite (map jsNumber (matchAll numRe rest)))
               | _ \<Rightarrow> None))"

subsection \<open>The custom tabular format\<close>

text \<open>\<open>voltages[nodeId].push(v)\<close> when the key is present.\<close>

definition pushAt :: "string \<Rightarrow> jsnum \<Rightarrow> (string \<times> jsnum list) list \<Rightarrow> (string \<times> jsnum list) list" where
  "pushAt k v vs = (case map_of vs k of None \<Rightarrow> vs | Some xs \<Rightarrow> AList.update k (xs @ [v]) vs)"

text \<open>\<open>if (!voltages[nodeId]) voltages[nodeId] = []\<close>.\<close>

definition ensureKey :: "string \<Rightarrow> (string \<times> jsnum list) list \<Rightarrow> (string \<times> jsnum list) list" where
  "ensureKey k vs = (case map_of vs k of None \<Rightarrow> vs @ [(k, [])] | Some xs \<Rightarrow> vs)"

text \<open>
  The state of the loop of \<open>parseCustomTransientFormat\<close>: the time vector, the voltage
  vectors, \<open>pointCount\<close> and \<open>maxNodeCount\<close>.
\<close>

type_synonym customState = "jsnum list \<times> (string \<times> jsnum list) list \<times> nat \<times> nat"

definition customRow :: "customState \<Rightarrow> string \<Rightarrow> customState" where
  "customRow st line =
     (case st of
        (tm, vs, pointCount, maxNodeCount) \<Rightarrow>
          (let trimmed = trim line
           in if trimmed = [] \<or> take 5 trimmed = ''Index'' then st
              else
                (case tokenizeConcatenatedLine trimmed of
                   None \<Rightarrow> st
                 | Some (ix, vals) \<Rightarrow>
                     (case vals of
                        timeVal # v # others \<Rightarrow>
                          (let nodeVoltages = v # others;
                               nodeCount = length nodeVoltages
                           in if isFinite timeVal then
                                (let grow = (nodeCount > maxNodeCount);
                                     maxNodeCount' = (if grow then nodeCount else maxNodeCount);
                                     vs1 = (if grow
                                            then foldl (\<lambda>a i. ensureKey (natToString i) a) vs [1..<nodeCount + 1]
                                            else vs);
                                     vs2 = foldl (\<lambda>a i. pushAt (natToString (i + 1))
                                                     (if isFinite (nodeVoltages ! i) then nodeVoltages ! i else Num 0)
                                                     (ensureKey (natToString (i + 1)) a))
                                             vs1 [0..<nodeCount];
                                     vs3 = foldl (\<lambda>a i. pushAt (natToString i) (Num 0) a)
                                             vs2 [nodeCount + 1..<maxNodeCount' + 1]
                                 in (tm @ [timeVal], vs3, pointCount + 1, maxNodeCount'))
                              else st)
                      | _ \<Rightarrow> st))))"

definition parseCustomTransientFormat :: "string \<Rightarrow> transient option" where
  "parseCustomTransientFormat dataLines =
     (case foldl customRow ([], [], 0, 0) (splitLines dataLines) of
        (tm, vs, pointCount, maxNodeCount) \<Rightarrow>
          if pointCount > 100 then Some \<lparr>time = tm, voltages = vs, currents = []\<rparr> else None)"

subsection \<open>The Variables/Values format\<close>

definition isAny :: "char \<Rightarrow> bool" where
  "isAny c = True"

definition newline :: string where
  "newline = [CHR 0x0A]"

text \<open>
  The patterns of \<open>parseTransientData\<close>, all with the flag \<open>i\<close>:
  \<^verbatim>\<open>Index\s+time\s+v\(\d+\)[\s\w\(\)]*\n-+\n([\s\S]*?)(?:\n\n|\n$)\<close>,
  \<^verbatim>\<open>plotname:\s*Transient Analysis\<close>,
  \<^verbatim>\<open>Variables:\s*\n([\s\S]*?)\nValues:\<close> and
  \<^verbatim>\<open>Values:\s*\n([\s\S]*?)(?:\n\n|\n$)\<close>.
\<close>

definition blockEnd :: rx where
  "blockEnd = Alt (lit (newline @ newline)) (Seq (lit newline) Eol)"

definition customFormatRe :: rx where
  "customFormatRe =
     seqs [liti ''Index'', Plus isSpace, liti ''time'', Plus isSpace, liti ''v('', Plus isDigit, lit '')'',
           Star (\<lambda>c. isSpace c \<or> isWord c \<or> c = CHR ''('' \<or> c = CHR '')''),
           lit newline, Plus (\<lambda>c. c = CHR ''-''), lit newline,
           Grp (Lazy isAny), blockEnd]"

definition plotnameRe :: rx where
  "plotnameRe = seqs [liti ''plotname:'', Star isSpace, liti ''Transient Analysis'']"

definition varsBlockRe :: rx where
  "varsBlockRe =
     seqs [liti ''Variables:'', Star isSpace, lit newline, Grp (Lazy isAny), lit newline, liti ''Values:'']"

definition valuesBlockRe :: rx where
  "valuesBlockRe = seqs [liti ''Values:'', Star isSpace, lit newline, Grp (Lazy isAny), blockEnd]"

text \<open>\<^verbatim>\<open>^\d+\s+([^\s]+)\s+\<close> and \<^verbatim>\<open>^v\((\d+)\)$\<close>.\<close>

definition varLineRe :: rx where
  "varLineRe = seqs [Plus isDigit, Plus isSpace, Grp (Plus (\<lambda>c. \<not> isSpace c)), Plus isSpace]"

definition voltNameRe :: rx where
  "voltNameRe = seqs [lit ''v('', Grp (Plus isDigit), lit '')'', Eol]"

text \<open>\<open>xs.findIndex(p)\<close>, \<open>None\<close> for -1.\<close>

fun findIndex :: "('a \<Rightarrow> bool) \<Rightarrow> 'a list \<Rightarrow> nat option" where
  "findIndex p [] = None"
| "findIndex p (x # xs) = (if p x then Some 0 else map_option Suc (findIndex p xs))"

text \<open>\<open>cols[i]\<close> may be \<open>undefined\<close>, and \<open>Number(undefined)\<close> is NaN.\<close>

definition colNumber :: "string list \<Rightarrow> nat \<Rightarrow> jsnum" where
  "colNumber cols i = (if i < length cols then jsNumber (cols ! i) else NaN)"

definition valuesRow :: "nat \<Rightarrow> nat \<Rightarrow> (string \<times> nat) list
    \<Rightarrow> jsnum list \<times> (string \<times> jsnum list) list \<Rightarrow> string
    \<Rightarrow> jsnum list \<times> (string \<times> jsnum list) list" where
  "valuesRow width timeIdx voltageIndices st row =
     (case st of
        (tm, vs) \<Rightarrow>
          (let cols = splitSpaces (trim row)
           in if length cols \<noteq> width then st
              else
                (let t = colNumber cols timeIdx
                 in if \<not> isFinite t then st
                    else (tm @ [t],
                          foldl (\<lambda>a e. let voltage = colNumber cols (snd e)
                                         in pushAt (fst e) (if isFinite voltage then voltage else Num 0) a)
                            vs (entries voltageIndices)))))"

definition parseTransientData :: "string \<Rightarrow> transient option" where
  "parseTransientData output =
     (case search customFormatRe output of
        Some g \<Rightarrow> parseCustomTransientFormat (hd g)
      | None \<Rightarrow>
          if search plotnameRe output = None then None
          else
            (case (search varsBlockRe output, search valuesBlockRe output) of
               (Some vb, Some valb) \<Rightarrow>
                 (let varLines = filter (\<lambda>l. l \<noteq> []) (map trim (splitLines (hd vb)));
                      indexToName = concat (map (\<lambda>l. case matchAt varLineRe l of
                                                        Some g \<Rightarrow> [toLowerCase (hd g)]
                                                      | None \<Rightarrow> []) varLines)
                  in case findIndex (\<lambda>n. n = ''time'') indexToName of
                       None \<Rightarrow> None
                     | Some timeIdx \<Rightarrow>
                         (let voltageIndices =
                                foldl (\<lambda>a e. case matchAt voltNameRe (fst e) of
                                                Some g \<Rightarrow> AList.update (hd g) (snd e) a
                                              | None \<Rightarrow> a)
                                  [] (zip indexToName [0..<length indexToName]);
                              vs0 = map (\<lambda>e. (fst e, [])) (entries voltageIndices)
                          in case foldl (valuesRow (length indexToName) timeIdx voltageIndices)
                                    ([], vs0) (splitLines (hd valb)) of
                               (tm, vs) \<Rightarrow> Some \<lparr>time = tm, voltages = vs, currents = []\<rparr>))
             | _ \<Rightarrow> None))"

subsection \<open>The operating point\<close>

text \<open>
  The four line patterns of \<open>parseNgSpiceOutput\<close>:
  \<^verbatim>\<open>v\(([^)]+)\)\s*=\s*([-\d.e+-]+)\<close> with the flag \<open>i\<close>,
  \<^verbatim>\<open>V\(([^)]+)\)\s+([-\d.e+-]+)\<close>,
  \<^verbatim>\<open>i\(([^)]+)\)\s*=\s*([-\d.e+-]+)\<close> with the flag \<open>i\<close>, and
  \<^verbatim>\<open>([^#\s]+)#branch\s+([-\d.e+-]+)\<close>.
\<close>

definition isNumChar :: "char \<Rightarrow> bool" where
  "isNumChar c = (isDigit c \<or> c = CHR ''-'' \<or> c = CHR ''.'' \<or> c = CHR ''e'' \<or> c = CHR ''+'')"

definition isNumCharI :: "char \<Rightarrow> bool" where
  "isNumCharI c = (isNumChar c \<or> c = CHR ''E'')"

definition notParen :: "char \<Rightarrow> bool" where
  "notParen c = (c \<noteq> CHR '')'')"

definition voltEqRe :: rx where
  "voltEqRe = seqs [liti ''v('', Grp (Plus notParen), lit '')'', Star isSpace, lit ''='', Star isSpace,
                    Grp (Plus isNumCharI)]"

definition voltColRe :: rx where
  "voltColRe = seqs [lit ''V('', Grp (Plus notParen), lit '')'', Plus isSpace, Grp (Plus isNumChar)]"

definition curEqRe :: rx where
  "curEqRe = seqs [liti ''i('', Grp (Plus notParen), lit '')'', Star isSpace, lit ''='', Star isSpace,
                   Grp (Plus isNumCharI)]"

definition branchRe :: rx where
  "branchRe = seqs [Grp (Plus (\<lambda>c. c \<noteq> CHR ''#'' \<and> \<not> isSpace c)), lit ''#branch'', Plus isSpace,
                    Grp (Plus isNumChar)]"

definition opLine :: "(string \<times> jsnum) list \<Rightarrow> string \<Rightarrow> (string \<times> jsnum) list" where
  "opLine op line =
     (case search voltEqRe line of
        Some g \<Rightarrow> AList.update (''v_'' @ g ! 0) (parseFloat (g ! 1)) op
      | None \<Rightarrow>
     (case search voltColRe line of
        Some g \<Rightarrow> AList.update (''v_'' @ g ! 0) (parseFloat (g ! 1)) op
      | None \<Rightarrow>
     (case search curEqRe line of
        Some g \<Rightarrow> AList.update (''i_'' @ g ! 0) (parseFloat (g ! 1)) op
      | None \<Rightarrow>
     (case search branchRe line of
        Some g \<Rightarrow> AList.update (''i_'' @ g ! 0) (parseFloat (g ! 1)) op
      | None \<Rightarrow> op))))"

definition parseNgSpiceOutput :: "string \<Rightarrow> NgSpiceResult" where
  "parseNgSpiceOutput output =
     (let op = foldl opLine [] (splitOn (CHR 0x0A) output)
      in if length op > 0 then
           emptyResult\<lparr>operatingPoint := Some op,
                        transientData := (case parseTransientData output of
                                            None \<Rightarrow> None
                                          | Some td \<Rightarrow> Some td)\<rparr>
         else emptyResult)"

subsection \<open>The analytic fallback\<close>

text \<open>
  \<^verbatim>\<open>^V\w+\s+(\d+)\s+(\d+)\s+DC\s+([\d.]+)\<close> and
  \<^verbatim>\<open>^R\w+\s+(\d+)\s+(\d+)\s+([\d.]+k?)\<close>.
\<close>

definition isDigitOrPoint :: "char \<Rightarrow> bool" where
  "isDigitOrPoint c = (isDigit c \<or> c = CHR ''.'')"

definition vLineRe :: rx where
  "vLineRe = seqs [lit ''V'', Plus isWord, Plus isSpace, Grp (Plus isDigit), Plus isSpace,
                   Grp (Plus isDigit), Plus isSpace, lit ''DC'', Plus isSpace, Grp (Plus isDigitOrPoint)]"

definition rLineRe :: rx where
  "rLineRe = seqs [lit ''R'', Plus isWord, Plus isSpace, Grp (Plus isDigit), Plus isSpace,
                   Grp (Plus isDigit), Plus isSpace, Grp (Seq (Plus isDigitOrPoint) (Opt (lit ''k'')))]"

text \<open>\<open>voltage_source\<close> and \<open>resistor\<close> as records \<open>(value, node, node)\<close>.\<close>

type_synonym device = "jsnum \<times> jsnum \<times> jsnum"

definition scanLine :: "device option \<times> device option \<Rightarrow> string \<Rightarrow> device option \<times> device option" where
  "scanLine st line =
     (case st of
        (voltage_source, resistor) \<Rightarrow>
          (let trimmed = trim line;
               voltage_source' =
                 (case matchAt vLineRe trimmed of
                    Some g \<Rightarrow> Some (parseFloat (g ! 2), parseInt (g ! 0), parseInt (g ! 1))
                  | None \<Rightarrow> voltage_source);
               resistor' =
                 (case matchAt rLineRe trimmed of
                    Some g \<Rightarrow>
                      Some ((if includesStr (g ! 2) ''k'' then jmul (parseFloat (g ! 2)) (Num 1000)
                             else parseFloat (g ! 2)),
                            parseInt (g ! 0), parseInt (g ! 1))
                  | None \<Rightarrow> resistor)
           in (voltage_source', resistor')))"

text \<open>
  \<open>lastNetlist\<close> is \<open>None\<close> before the first deck is built, and the deck text after. The
  node numbers are printed into the keys as any number is, hence the parameter \<open>fmt\<close>.
\<close>

definition performBasicCircuitAnalysis :: "(rat \<Rightarrow> string) \<Rightarrow> string option \<Rightarrow> NgSpiceResult" where
  "performBasicCircuitAnalysis fmt lastNetlist =
     (case lastNetlist of
        None \<Rightarrow>
          emptyResult\<lparr>operatingPoint := Some [],
                       transientData := Some \<lparr>time = [], voltages = [], currents = []\<rparr>\<rparr>
      | Some netlist \<Rightarrow>
          (case foldl scanLine (None, None) (splitOn (CHR 0x0A) netlist) of
             (Some (voltage, pos_node, neg_node), Some (resistance, node1, node2)) \<Rightarrow>
               (let current = jdiv voltage resistance
                in emptyResult
                     \<lparr>operatingPoint :=
                        Some (AList.update ''i_vv1'' current
                               (AList.update (''v_'' @ numToString fmt neg_node) (Num 0)
                                 (AList.update (''v_'' @ numToString fmt pos_node) voltage []))),
                      transientData :=
                        Some \<lparr>time = [Num 0, toDouble (1 / 1000)],
                              voltages = AList.update (numToString fmt neg_node) [Num 0, Num 0]
                                           (AList.update (numToString fmt pos_node) [voltage, voltage] []),
                              currents = [(''vv1'', [current, current])]\<rparr>\<rparr>)
           | _ \<Rightarrow>
               emptyResult
                 \<lparr>operatingPoint := Some [],
                  transientData := Some \<lparr>time = [Num 0, toDouble (1 / 1000)], voltages = [], currents = []\<rparr>\<rparr>))"

subsection \<open>Running the engine\<close>

text \<open>
  The engine is outside the program: what it does is an input of the model. Either the
  process cannot be started (the event \<open>error\<close>, with a message), or it ends after writing
  to its two output streams (the event \<open>close\<close>), with an exit code or, when a signal
  ended it, with \<open>null\<close> in its place (\<open>None\<close>).
\<close>

datatype engineRun = SpawnError string | Closed "int option" string string

definition intToString :: "int \<Rightarrow> string" where
  "intToString i = (if i < 0 then ''-'' @ natToString (nat (- i)) else natToString (nat i))"

text \<open>
  \<open>runNgSpice\<close>, from the events of the process on. No step of the \<open>try\<close> block throws,
  so its \<open>catch\<close> is never entered.
\<close>

definition runNgSpice :: "(rat \<Rightarrow> string) \<Rightarrow> string option \<Rightarrow> engineRun \<Rightarrow> NgSpiceResult" where
  "runNgSpice fmt lastNetlist run =
     (case run of
        SpawnError message \<Rightarrow>
          emptyResult\<lparr>success := False, error := Some (''Failed to start NGSpice: '' @ message)\<rparr>
      | Closed code stdout stderr \<Rightarrow>
          if code \<noteq> Some 0 then
            emptyResult\<lparr>success := False,
                         error := Some (''NGSpice exited with code ''
                                          @ (case code of None \<Rightarrow> ''null'' | Some c \<Rightarrow> intToString c)
                                          @ '': '' @ stderr)\<rparr>
          else
            (let result = parseNgSpiceOutput stdout;
                 result' = (case parseTransientData stdout of
                              None \<Rightarrow> result
                            | Some td \<Rightarrow>
                                if length (time td) > 2 then result\<lparr>transientData := Some td\<rparr>
                                else result)
             in if (case operatingPoint result' of None \<Rightarrow> True | Some op \<Rightarrow> length op = 0) then
                  (let fallbackResult = performBasicCircuitAnalysis fmt lastNetlist
                   in fallbackResult\<lparr>success := True\<rparr>)
                else result'\<lparr>success := True\<rparr>))"

text \<open>
  \<open>simulate(components)\<close>: the deck is built and stored as \<open>lastNetlist\<close>, the engine is
  run on it, and a successful result gets the node map.
\<close>

definition simulate :: "(rat \<Rightarrow> string) \<Rightarrow> component list \<Rightarrow> engineRun \<Rightarrow> NgSpiceResult" where
  "simulate fmt components run =
     (case generateSimpleSpiceNetlist fmt components of
        (netlist, m) \<Rightarrow>
          (let result = runNgSpice fmt (Some netlist) run
           in if success result then result\<lparr>resultMap := Some m\<rparr> else result))"

section \<open>Auxiliary definitions for the verification\<close>

text \<open>
  The invariant of the map during a run of the compiler: ground comes first, the indices
  are \<open>0, 1, 2, ...\<close> in the order of the entries, and no key occurs twice.
\<close>

definition wfMap :: "NetToNodeMap \<Rightarrow> bool" where
  "wfMap m = (m \<noteq> [] \<and> fst (hd m) = ''0'' \<and> map snd m = [0..<length m] \<and> distinct (map fst m))"

text \<open>Two components used as concrete inputs: a resistor from net A to ground, and a junction
  (kind \<open>node\<close>) with pins on the nets A and B.\<close>

definition resistorAG :: component where
  "resistorAG = \<lparr>c_ref = ''R1'', c_kind = ''resistor'', c_model = None, c_type = None,
     c_value = Some ''1k'', c_pins = Some [(''1'', \<lparr>net = ''A''\<rparr>), (''2'', \<lparr>net = ''GND''\<rparr>)]\<rparr>"

definition junctionAB :: component where
  "junctionAB = \<lparr>c_ref = ''N1'', c_kind = ''node'', c_model = None, c_type = None,
     c_value = None, c_pins = Some [(''1'', \<lparr>net = ''A''\<rparr>), (''2'', \<lparr>net = ''B''\<rparr>)]\<rparr>"


text \<open>
  The pins a kind requires, in the order in which the emitter touches them, and the
  device line of a component for given node indices; they state what the loop emits for
  a component that is not skipped.
\<close>

definition requiredPins :: "component \<Rightarrow> string list" where
  "requiredPins cmp =
     (if c_kind cmp = ''transistor'' then [''C'', ''B'', ''E'']
      else if c_kind cmp = ''battery'' then [''2'', ''1'']
      else [''1'', ''2''])"

definition deviceLine :: "(rat \<Rightarrow> string) \<Rightarrow> component \<Rightarrow> nat list \<Rightarrow> string" where
  "deviceLine fmt cmp ns =
     (let nodes = join '' '' (map natToString ns)
      in if c_kind cmp = ''resistor'' then
           ''R'' @ orElse (Some (c_ref cmp)) ''R?'' @ '' '' @ nodes @ '' ''
             @ numToString fmt (parseValue (Some (case c_value cmp of None \<Rightarrow> ''1k'' | Some v \<Rightarrow> v)) (Num 1000))
         else if c_kind cmp = ''capacitor'' then
           ''C'' @ orElse (Some (c_ref cmp)) ''C?'' @ '' '' @ nodes @ '' ''
             @ numToString fmt (parseValue (Some (case c_value cmp of None \<Rightarrow> ''1u'' | Some v \<Rightarrow> v)) (toDouble (1 / 10 ^ 6)))
         else if c_kind cmp = ''led'' \<or> c_kind cmp = ''diode'' then
           ''D'' @ orElse (Some (c_ref cmp)) ''D?'' @ '' '' @ nodes @ '' '' @ orElse (c_model cmp) ''D1N4148''
         else if c_kind cmp = ''battery'' then
           ''V'' @ orElse (Some (c_ref cmp)) ''V?'' @ '' '' @ nodes @ '' DC ''
             @ numToString fmt (parseValue (Some (case c_value cmp of None \<Rightarrow> ''5'' | Some v \<Rightarrow> v)) (Num 5))
         else
           ''Q'' @ orElse (Some (c_ref cmp)) ''Q?'' @ '' '' @ nodes @ '' '' @ pickBjtModel cmp)"

text \<open>A resistor whose pin 1 is wired to a net name of two spaces.\<close>

definition resistorBlank :: component where
  "resistorBlank = \<lparr>c_ref = ''R1'', c_kind = ''resistor'', c_model = None, c_type = None,
     c_value = Some ''1k'', c_pins = Some [(''1'', \<lparr>net = ''  ''\<rparr>), (''2'', \<lparr>net = ''A''\<rparr>)]\<rparr>"


text \<open>
  The language of a pattern without groups and anchors (\<open>simple\<close>): the strings it matches
  in full. It is used to state what the matcher \<open>rxm\<close> computes.
\<close>

primrec simple :: "rx \<Rightarrow> bool" where
  "simple (Cls P) = True"
| "simple (Seq a b) = (simple a \<and> simple b)"
| "simple (Alt a b) = (simple a \<and> simple b)"
| "simple (Opt a) = simple a"
| "simple (Star P) = True"
| "simple (Plus P) = True"
| "simple (Lazy P) = True"
| "simple (Grp a) = False"
| "simple Eol = False"

primrec lang :: "rx \<Rightarrow> string set" where
  "lang (Cls P) = {[c] | c. P c}"
| "lang (Seq a b) = {u @ v | u v. u \<in> lang a \<and> v \<in> lang b}"
| "lang (Alt a b) = lang a \<union> lang b"
| "lang (Opt a) = insert [] (lang a)"
| "lang (Star P) = {u. list_all P u}"
| "lang (Plus P) = {u. u \<noteq> [] \<and> list_all P u}"
| "lang (Lazy P) = {u. list_all P u}"
| "lang (Grp a) = lang a"
| "lang Eol = {[]}"

text \<open>
  A numeric mantissa: an optional sign, digits, an optional point, at least one digit, and
  an optional exponent (\<open>e\<close> or \<open>E\<close>, an optional sign, at least one digit). These are the
  strings the first group of the pattern of \<open>parseValue\<close> matches.
\<close>

definition exponentRe :: rx where
  "exponentRe = Seq (Cls isExp) (Seq (Opt (Cls isSign)) (Plus isDigit))"

definition isMantissa :: "string \<Rightarrow> bool" where
  "isMantissa x =
     (\<exists>sg ip dt fp ex.
        x = sg @ ip @ dt @ fp @ ex
        \<and> (sg = [] \<or> sg = ''+'' \<or> sg = ''-'')
        \<and> list_all isDigit ip
        \<and> (dt = [] \<or> dt = ''.'')
        \<and> fp \<noteq> [] \<and> list_all isDigit fp
        \<and> (ex = [] \<or>
            (\<exists>e sg' ds. ex = e # sg' @ ds \<and> isExp e \<and> (sg' = [] \<or> sg' = ''+'' \<or> sg' = ''-'')
               \<and> ds \<noteq> [] \<and> list_all isDigit ds)))"

text \<open>
  What the two line patterns of the fallback read from one line of the deck, and whether
  they recognise the line at all.
\<close>

definition vLine :: "string \<Rightarrow> device option" where
  "vLine line =
     (case matchAt vLineRe (trim line) of
        Some g \<Rightarrow> Some (parseFloat (g ! 2), parseInt (g ! 0), parseInt (g ! 1))
      | None \<Rightarrow> None)"

definition rLine :: "string \<Rightarrow> device option" where
  "rLine line =
     (case matchAt rLineRe (trim line) of
        Some g \<Rightarrow>
          Some ((if includesStr (g ! 2) ''k'' then jmul (parseFloat (g ! 2)) (Num 1000)
                 else parseFloat (g ! 2)),
                parseInt (g ! 0), parseInt (g ! 1))
      | None \<Rightarrow> None)"

definition isVLine :: "string \<Rightarrow> bool" where
  "isVLine line = (vLine line \<noteq> None)"

definition isRLine :: "string \<Rightarrow> bool" where
  "isRLine line = (rLine line \<noteq> None)"

text \<open>
  Concrete inputs: a 5 V battery and a 1 k resistor between the nets VCC and GND, the same
  battery without a reference designator, and an engine output with one operating-point
  line and a Variables/Values block of a single row.
\<close>

definition batteryV1 :: component where
  "batteryV1 = \<lparr>c_ref = ''V1'', c_kind = ''battery'', c_model = None, c_type = None,
     c_value = Some ''5'', c_pins = Some [(''1'', \<lparr>net = ''GND''\<rparr>), (''2'', \<lparr>net = ''VCC''\<rparr>)]\<rparr>"
definition resistorR1 :: component where
  "resistorR1 = \<lparr>c_ref = ''R1'', c_kind = ''resistor'', c_model = None, c_type = None,
     c_value = Some ''1k'', c_pins = Some [(''1'', \<lparr>net = ''VCC''\<rparr>), (''2'', \<lparr>net = ''GND''\<rparr>)]\<rparr>"

definition batteryNoRef :: component where
  "batteryNoRef = \<lparr>c_ref = [], c_kind = ''battery'', c_model = None, c_type = None,
     c_value = Some ''5'', c_pins = Some [(''1'', \<lparr>net = ''GND''\<rparr>), (''2'', \<lparr>net = ''VCC''\<rparr>)]\<rparr>"

definition outputOnePoint :: string where
  "outputOnePoint =
     ''v(1) = 5.000000e+00'' @ newline @
     ''plotname: Transient Analysis'' @ newline @
     ''Variables:'' @ newline @
     ''0 time time'' @ newline @
     ''1 v(1) voltage'' @ newline @
     ''Values:'' @ newline @
     ''0.0 5.0'' @ newline @ newline"


text \<open>In the loop of \<open>parseCustomTransientFormat\<close>, \<open>pointCount\<close> is the length of the time vector.\<close>

definition counted :: "customState \<Rightarrow> bool" where
  "counted st = (case st of (tm, vs, pointCount, maxNodeCount) \<Rightarrow> length tm = pointCount)"


section \<open>Verification: the node map\<close>

lemma Max_upt: "0 < n \<Longrightarrow> Suc (Max {0..<n}) = n"
proof -
  assume "0 < n"
  then have "Max {0..<n} = n - 1" by (intro Max_eqI) auto
  with \<open>0 < n\<close> show ?thesis by simp
qed

lemma wfMap_touch: "wfMap m \<Longrightarrow> wfMap (snd (touch m n))"
  by (auto simp: touch_def wfMap_def Let_def Max_upt map_of_eq_None_iff split: option.splits)

lemma wfMap_nodesOf: "wfMap m \<Longrightarrow> wfMap (snd (nodesOf m ns))"
proof (induction ns arbitrary: m)
  case Nil
  then show ?case by simp
next
  case (Cons a ns)
  from wfMap_touch[OF Cons.prems, of a] Cons.IH[of "snd (touch m a)"] show ?case
    by (auto split: prod.splits)
qed

lemma node_is_display_only: "''node'' \<in> DISPLAY_ONLY_TYPES"
  by (simp add: DISPLAY_ONLY_TYPES_def)

lemma wfMap_res: "wfMap m \<Longrightarrow> wfMap (snd (res fmt m r a b v))"
  using wfMap_nodesOf[of m "[Some a, Some b]"] by (simp add: res_def case_prod_beta Let_def)

lemma wfMap_cap: "wfMap m \<Longrightarrow> wfMap (snd (cap fmt m r a b v))"
  using wfMap_nodesOf[of m "[Some a, Some b]"] by (simp add: cap_def case_prod_beta Let_def)

lemma wfMap_diode: "wfMap m \<Longrightarrow> wfMap (snd (diode m r a b v))"
  using wfMap_nodesOf[of m "[Some a, Some b]"] by (simp add: diode_def case_prod_beta)

lemma wfMap_vsource: "wfMap m \<Longrightarrow> wfMap (snd (vsource fmt m r a b v))"
  using wfMap_nodesOf[of m "[Some a, Some b]"] by (simp add: vsource_def case_prod_beta Let_def)

lemma wfMap_npn: "wfMap m \<Longrightarrow> wfMap (snd (npn m r c b e v))"
  using wfMap_nodesOf[of m "[Some c, Some b, Some e]"] by (simp add: npn_def case_prod_beta)

lemma wfMap_emitComponent: "wfMap (snd st) \<Longrightarrow> wfMap (snd (emitComponent fmt st cmp))"
  using node_is_display_only
  by (cases st)
     (auto simp: emitComponent_def case_prod_beta Let_def wfMap_res wfMap_cap wfMap_diode
        wfMap_vsource wfMap_npn)

lemma wfMap_foldl: "wfMap (snd st) \<Longrightarrow> wfMap (snd (foldl (emitComponent fmt) st cs))"
  by (induction cs arbitrary: st) (simp_all add: wfMap_emitComponent)

lemma wfMap_makeEmitter: "wfMap (makeEmitter [])"
  by (simp add: wfMap_def makeEmitter_def)

lemma wfMap_generate: "wfMap (snd (generateSimpleSpiceNetlist fmt cs))"
  using wfMap_foldl[of "([''Simple Circuit'', []], makeEmitter [])" fmt cs] wfMap_makeEmitter
  by (simp add: generateSimpleSpiceNetlist_def case_prod_beta)

lemma wfMap_ground:
  assumes "wfMap m"
  shows "map_of m ''0'' = Some 0"
proof -
  from assms obtain v rest where m: "m = (''0'', v) # rest"
    by (cases m) (auto simp: wfMap_def)
  from assms have "map snd m ! 0 = [0..<length m] ! 0" by (simp add: wfMap_def)
  with m have "v = 0" by (simp del: upt_Suc)
  with m show ?thesis by simp
qed

lemma wfMap_index:
  assumes "wfMap m" "map_of m k = Some i"
  shows "i < length m \<and> m ! i = (k, i)"
proof -
  from assms(2) have "(k, i) \<in> set m" by (rule map_of_SomeD)
  then obtain j where j: "j < length m" "m ! j = (k, i)" by (auto simp: in_set_conv_nth)
  from assms(1) have "map snd m ! j = [0..<length m] ! j" by (simp add: wfMap_def)
  with j have "i = j" by simp
  with j show ?thesis by simp
qed

lemma wfMap_only_ground_zero: "wfMap m \<Longrightarrow> map_of m k = Some 0 \<Longrightarrow> k = ''0''"
  using wfMap_index[of m k 0] by (cases m) (auto simp: wfMap_def)

lemma wfMap_inj: "wfMap m \<Longrightarrow> map_of m k = Some i \<Longrightarrow> map_of m k' = Some i \<Longrightarrow> k = k'"
  using wfMap_index[of m k i] wfMap_index[of m k' i] by auto

lemma wfMap_ran: assumes "wfMap m" shows "ran (map_of m) = {0..<length m}"
proof -
  from assms have d: "distinct (map fst m)" by (simp add: wfMap_def)
  have "ran (map_of m) = snd ` set m" using d by (rule ran_distinct)
  also have "\<dots> = set (map snd m)" by simp
  also have "\<dots> = {0..<length m}" using assms by (simp add: wfMap_def)
  finally show ?thesis .
qed


lemmas char_simps = isSpace_def isDigit_def isLower_def isUpper_def isAlpha_def isWord_def isDot_def
  isSign_def isPoint_def isExp_def
  toUpperCase_def toLowerCase_def toUpperChar_def toLowerChar_def trim_def trimStart_def

lemmas emit_simps = generateSimpleSpiceNetlist_def emitComponent_def DISPLAY_ONLY_TYPES_def
  makeEmitter_def orElse_def pinNet_def truthy_def res_def cap_def diode_def vsource_def npn_def
  touch_def normalizeNet_def

lemma gen_example: "snd (generateSimpleSpiceNetlist fmt [resistorAG, junctionAB]) = [(''0'', 0), (''A'', 1)]"
  by (simp add: emit_simps char_simps resistorAG_def junctionAB_def)

text \<open>
  Claim C2. In the map returned by \<open>generateSimpleSpiceNetlist\<close>, for every list of
  components, the key \<open>"0"\<close> has the index 0 and no other key has the index 0.
\<close>

theorem ground_is_node_zero:
  "map_of (snd (generateSimpleSpiceNetlist fmt components)) ''0'' = Some 0
   \<and> (\<forall>k. map_of (snd (generateSimpleSpiceNetlist fmt components)) k = Some 0 \<longrightarrow> k = ''0'')"
  using wfMap_generate[of fmt components] wfMap_ground wfMap_only_ground_zero by blast

theorem ground_is_node_zero_witness:
  "map_of (snd (generateSimpleSpiceNetlist (\<lambda>x. []) [resistorAG, junctionAB])) ''0'' = Some 0
   \<and> map_of (snd (generateSimpleSpiceNetlist (\<lambda>x. []) [resistorAG, junctionAB])) ''A'' = Some 1"
  using ground_is_node_zero[of "\<lambda>x. []" "[resistorAG, junctionAB]"]
  by (simp add: gen_example)

text \<open>
  Claim C9. For every list of components the returned map has one entry per key, no two
  keys share an index, and the indices in use are exactly \<open>0, ..., K\<close> where \<open>K + 1\<close>
  is the number of entries.
\<close>

theorem node_map_injective_contiguous:
  "distinct (map fst (snd (generateSimpleSpiceNetlist fmt components)))
   \<and> (\<forall>k k' i. map_of (snd (generateSimpleSpiceNetlist fmt components)) k = Some i
          \<and> map_of (snd (generateSimpleSpiceNetlist fmt components)) k' = Some i \<longrightarrow> k = k')
   \<and> (\<exists>K. length (snd (generateSimpleSpiceNetlist fmt components)) = K + 1
          \<and> ran (map_of (snd (generateSimpleSpiceNetlist fmt components))) = {0..K})"
proof -
  let ?M = "snd (generateSimpleSpiceNetlist fmt components)"
  have wf: "wfMap ?M" by (rule wfMap_generate)
  then have d: "distinct (map fst ?M)" by (simp add: wfMap_def)
  have inj: "\<forall>k k' i. map_of ?M k = Some i \<and> map_of ?M k' = Some i \<longrightarrow> k = k'"
    using wfMap_inj[OF wf] by blast
  from wf obtain K where K: "length ?M = K + 1" by (cases ?M) (auto simp: wfMap_def)
  have "ran (map_of ?M) = {0..<length ?M}" using wf by (rule wfMap_ran)
  with K have "ran (map_of ?M) = {0..K}" by (simp add: atLeastLessThanSuc_atLeastAtMost)
  with K d inj show ?thesis by blast
qed

theorem node_map_injective_contiguous_witness:
  "distinct (map fst (snd (generateSimpleSpiceNetlist (\<lambda>x. []) [resistorAG, junctionAB])))
   \<and> length (snd (generateSimpleSpiceNetlist (\<lambda>x. []) [resistorAG, junctionAB])) = 2
   \<and> ran (map_of (snd (generateSimpleSpiceNetlist (\<lambda>x. []) [resistorAG, junctionAB]))) = {0..1}"
  using node_map_injective_contiguous[of "\<lambda>x. []" "[resistorAG, junctionAB]"]
  by (auto simp: gen_example)

text \<open>
  Claim C3. \<open>touch\<close> normalises the name. A normalised name that is empty or \<open>"0"\<close>
  gives 0 and leaves the map as it is. A name that is a key gives its index and leaves
  the map as it is. Any other name gets the greatest index in use plus one (1 in an empty
  map), the entry is added, and the index is returned; with only the ground entry in the
  map that index is 1.
\<close>

theorem touch_contract:
  "(normalizeNet netName = [] \<or> normalizeNet netName = ''0'' \<longrightarrow> touch m netName = (0, m))
   \<and> (normalizeNet netName \<noteq> [] \<and> normalizeNet netName \<noteq> ''0'' \<longrightarrow>
        (case map_of m (normalizeNet netName) of
           Some i \<Rightarrow> touch m netName = (i, m)
         | None \<Rightarrow>
             touch m netName =
               ((if m = [] then 1 else Max (snd ` set m) + 1),
                m @ [(normalizeNet netName, (if m = [] then 1 else Max (snd ` set m) + 1))]))
        \<and> map_of (snd (touch m netName)) (normalizeNet netName) = Some (fst (touch m netName)))
   \<and> (m = [(''0'', 0)] \<and> normalizeNet netName \<noteq> [] \<and> normalizeNet netName \<noteq> ''0'' \<longrightarrow>
        touch m netName = (1, [(''0'', 0), (normalizeNet netName, 1)]))"
proof -
  have n: "normalizeNet (Some (case netName of None \<Rightarrow> [] | Some x \<Rightarrow> x)) = normalizeNet netName"
    by (cases netName) (simp_all add: normalizeNet_def)
  show ?thesis
    unfolding touch_def n
    by (auto simp: Let_def map_add_def split: option.splits)
qed

theorem touch_contract_witness:
  "touch [(''0'', 0), (''A'', 1)] (Some '' B '') = (2, [(''0'', 0), (''A'', 1), (''B'', 2)])
   \<and> touch [(''0'', 0), (''A'', 1)] (Some ''A'') = (1, [(''0'', 0), (''A'', 1)])
   \<and> touch [(''0'', 0), (''A'', 1)] (Some ''gnd'') = (0, [(''0'', 0), (''A'', 1)])
   \<and> touch [(''0'', 0)] (Some ''A'') = (1, [(''0'', 0), (''A'', 1)])"
  using touch_contract[of "Some '' B ''" "[(''0'', 0), (''A'', 1)]"]
    touch_contract[of "Some ''A''" "[(''0'', 0), (''A'', 1)]"]
    touch_contract[of "Some ''gnd''" "[(''0'', 0), (''A'', 1)]"]
    touch_contract[of "Some ''A''" "[(''0'', 0)]"]
  by (simp add: normalizeNet_def char_simps)

text \<open>
  Claim C1 does not hold of the code. A junction has the kind \<open>node\<close>, which is in
  \<open>DISPLAY_ONLY_TYPES\<close>: the loop skips it before the switch, and the case \<open>"node"\<close>
  that would merge the nets is never reached. With a resistor on net A and a junction
  between the nets A and B, net A has index 1 and net B has no entry.
\<close>

theorem junction_nets_not_merged:
  "map_of (snd (generateSimpleSpiceNetlist fmt [resistorAG, junctionAB])) ''A'' = Some 1
   \<and> map_of (snd (generateSimpleSpiceNetlist fmt [resistorAG, junctionAB])) ''B'' = None"
  by (simp add: gen_example)

text \<open>Run on its own, the case \<open>"node"\<close> does give B the index of A.\<close>

lemma junction_case_alone: "nodeCase [(''0'', 0), (''A'', 1)] junctionAB = [(''0'', 0), (''A'', 1), (''B'', 1)]"
  by (simp add: nodeCase_def junctionAB_def touch_def normalizeNet_def char_simps)


section \<open>Verification: blank net names\<close>

lemma dropWhile_all: "\<forall>c \<in> set w. P c \<Longrightarrow> dropWhile P w = []"
  by (induction w) auto

lemma normalizeNet_blank: "\<forall>c \<in> set w. isSpace c \<Longrightarrow> normalizeNet (Some w) = []"
  by (simp add: normalizeNet_def trim_def dropWhile_all toUpperCase_def Let_def)

lemma touch_blank: "\<forall>c \<in> set w. isSpace c \<Longrightarrow> touch m (Some w) = (0, m)"
  by (simp add: touch_def normalizeNet_blank)

lemma trim_hd: assumes "trim r \<noteq> []" shows "\<not> isSpace (hd (trim r))"
proof -
  let ?d = "dropWhile isSpace r"
  have "rev ?d = takeWhile isSpace (rev ?d) @ dropWhile isSpace (rev ?d)" by simp
  then have "?d = rev (dropWhile isSpace (rev ?d)) @ rev (takeWhile isSpace (rev ?d))"
    by (metis rev_append rev_rev_ident)
  then have d: "?d = trim r @ rev (takeWhile isSpace (rev ?d))" by (simp add: trim_def)
  with assms have "hd ?d = hd (trim r)" by (metis hd_append2)
  moreover from d assms have "?d \<noteq> []" by (metis Nil_is_append_conv)
  then have "\<not> isSpace (hd ?d)" by (rule hd_dropWhile)
  ultimately show ?thesis by simp
qed

lemma normalizeNet_hd: "normalizeNet x \<noteq> [] \<Longrightarrow> \<not> isSpace (hd (normalizeNet x))"
  using trim_hd
  by (auto simp: normalizeNet_def Let_def isSpace_def split: option.splits if_splits)

lemma touch_other:
  assumes "k = [] \<or> isSpace (hd k)"
  shows "map_of (snd (touch m n)) k = map_of m k"
proof -
  let ?n = "normalizeNet (Some (case n of None \<Rightarrow> [] | Some x \<Rightarrow> x))"
  show ?thesis
  proof (cases "?n = [] \<or> ?n = ''0''")
    case True
    then show ?thesis by (auto simp: touch_def)
  next
    case False
    then have "\<not> isSpace (hd ?n)" using normalizeNet_hd by blast
    with False assms have "k \<noteq> ?n" by auto
    with False show ?thesis
      by (cases "map_of m ?n") (auto simp: touch_def Let_def map_add_def split: option.splits)
  qed
qed

lemma nodesOf_other:
  "k = [] \<or> isSpace (hd k) \<Longrightarrow> map_of (snd (nodesOf m ns)) k = map_of m k"
proof (induction ns arbitrary: m)
  case Nil
  then show ?case by simp
next
  case (Cons a ns)
  from Cons.IH[OF Cons.prems, of "snd (touch m a)"] touch_other[OF Cons.prems, of m a]
  show ?case by (simp add: case_prod_beta)
qed

lemma nodesOf_blank:
  "i < length ns \<Longrightarrow> ns ! i = Some w \<Longrightarrow> \<forall>c \<in> set w. isSpace c \<Longrightarrow> fst (nodesOf m ns) ! i = 0"
proof (induction ns arbitrary: m i)
  case Nil
  then show ?case by simp
next
  case (Cons a ns)
  show ?case
  proof (cases i)
    case 0
    with Cons.prems show ?thesis by (simp add: case_prod_beta touch_blank)
  next
    case (Suc j)
    with Cons.prems Cons.IH[of j "snd (touch m a)"] show ?thesis by (simp add: case_prod_beta)
  qed
qed

lemma join_nodes2:
  "join '' '' (map natToString (fst (nodesOf m [a, b]))) =
     natToString (fst (nodesOf m [a, b]) ! 0) @ '' '' @ natToString (fst (nodesOf m [a, b]) ! 1)"
  by (simp add: case_prod_beta)

lemma join_nodes3:
  "join '' '' (map natToString (fst (nodesOf m [a, b, c]))) =
     natToString (fst (nodesOf m [a, b, c]) ! 0) @ '' '' @ natToString (fst (nodesOf m [a, b, c]) ! 1)
       @ '' '' @ natToString (fst (nodesOf m [a, b, c]) ! 2)"
  by (simp add: case_prod_beta)

lemma truthy_the: "truthy x \<Longrightarrow> Some (the x) = x"
  by (cases x) (simp_all add: truthy_def)

lemma emit_two_terminal:
  assumes "c_kind cmp \<in> {''resistor'', ''capacitor'', ''led'', ''diode''}"
    and "orElse (c_type cmp) [] \<notin> DISPLAY_ONLY_TYPES"
    and "truthy (pinNet cmp ''1'')" "truthy (pinNet cmp ''2'')"
  shows "emitComponent fmt (lines, m) cmp =
           (lines @ [deviceLine fmt cmp (fst (nodesOf m [pinNet cmp ''1'', pinNet cmp ''2'']))],
            snd (nodesOf m [pinNet cmp ''1'', pinNet cmp ''2'']))"
  using assms
  by (auto simp add: emitComponent_def res_def cap_def diode_def deviceLine_def truthy_the
        DISPLAY_ONLY_TYPES_def join_nodes2 case_prod_beta Let_def simp del: nodesOf.simps)

lemma emit_battery:
  assumes "c_kind cmp = ''battery''"
    and "orElse (c_type cmp) [] \<notin> DISPLAY_ONLY_TYPES"
    and "truthy (pinNet cmp ''1'')" "truthy (pinNet cmp ''2'')"
  shows "emitComponent fmt (lines, m) cmp =
           (lines @ [deviceLine fmt cmp (fst (nodesOf m [pinNet cmp ''2'', pinNet cmp ''1'']))],
            snd (nodesOf m [pinNet cmp ''2'', pinNet cmp ''1'']))"
  using assms
  by (auto simp add: emitComponent_def vsource_def deviceLine_def truthy_the
        DISPLAY_ONLY_TYPES_def join_nodes2 case_prod_beta Let_def simp del: nodesOf.simps)

lemma emit_transistor:
  assumes "c_kind cmp = ''transistor''"
    and "orElse (c_type cmp) [] \<notin> DISPLAY_ONLY_TYPES"
    and "truthy (pinNet cmp ''C'')" "truthy (pinNet cmp ''B'')" "truthy (pinNet cmp ''E'')"
  shows "emitComponent fmt (lines, m) cmp =
           (lines @ [deviceLine fmt cmp (fst (nodesOf m [pinNet cmp ''C'', pinNet cmp ''B'', pinNet cmp ''E'']))],
            snd (nodesOf m [pinNet cmp ''C'', pinNet cmp ''B'', pinNet cmp ''E'']))"
  using assms
  by (auto simp add: emitComponent_def npn_def deviceLine_def truthy_the
        DISPLAY_ONLY_TYPES_def join_nodes3 case_prod_beta Let_def simp del: nodesOf.simps)


lemmas num_simps = jsNumber_def parseRadix_def parseSigned_def parseUnsigned_def parseExp_def
  parseFloat_def digitsVal_def digitVal_def pow10_def toDouble_def roundSigned_def
  roundMagnitude_def binaryExponent_def roundHalfEven_def pow2_def bitLength.simps
  signedZero_def signedInf_def jmul_def jdiv_def

lemmas value_simps = parseValue_def valueRe_def mantissaRe_def isSuffixChar_def matchAt_def suffixMult_def

lemma parseValue_1k: "parseValue (Some ''1k'') fb = Num 1000"
  by (simp add: value_simps num_simps char_simps)

text \<open>
  Claim C10. A component of an emitted kind (two or three terminals) whose required pins
  all carry a non-empty net string is not skipped, also when one of those strings is
  white space only: its device line is appended, the terminal of the blank pin is node
  0, and the map gets no entry for the blank string nor for its normal form, the empty
  string.
\<close>

theorem blank_pin_wired_to_ground:
  assumes kind: "c_kind cmp \<in> {''resistor'', ''capacitor'', ''led'', ''diode'', ''battery'', ''transistor''}"
    and ty: "orElse (c_type cmp) [] \<notin> DISPLAY_ONLY_TYPES"
    and present: "\<forall>l \<in> set (requiredPins cmp). truthy (pinNet cmp l)"
    and i: "i < length (requiredPins cmp)"
    and w: "pinNet cmp (requiredPins cmp ! i) = Some w"
    and blank: "\<forall>c \<in> set w. isSpace c"
  shows "\<exists>ns m'. nodesOf m (map (pinNet cmp) (requiredPins cmp)) = (ns, m')
           \<and> emitComponent fmt (lines, m) cmp = (lines @ [deviceLine fmt cmp ns], m')
           \<and> ns ! i = 0
           \<and> map_of m' w = map_of m w
           \<and> map_of m' [] = map_of m []"
proof -
  let ?names = "map (pinNet cmp) (requiredPins cmp)"
  have emit: "emitComponent fmt (lines, m) cmp =
      (lines @ [deviceLine fmt cmp (fst (nodesOf m ?names))], snd (nodesOf m ?names))"
  proof (cases "c_kind cmp = ''transistor''")
    case True
    with present ty show ?thesis
      using emit_transistor[of cmp fmt lines m] by (simp add: requiredPins_def)
  next
    case False
    note nt = this
    show ?thesis
    proof (cases "c_kind cmp = ''battery''")
      case True
      with present ty show ?thesis
        using emit_battery[of cmp fmt lines m] by (simp add: requiredPins_def)
    next
      case False
      with nt kind have "c_kind cmp \<in> {''resistor'', ''capacitor'', ''led'', ''diode''}" by auto
      with present ty nt False show ?thesis
        using emit_two_terminal[of cmp fmt lines m] by (simp add: requiredPins_def)
    qed
  qed
  from i w have "?names ! i = Some w" by simp
  with i blank have zero: "fst (nodesOf m ?names) ! i = 0"
    using nodesOf_blank[of i ?names w m] by simp
  from present i have "truthy (pinNet cmp (requiredPins cmp ! i))" by simp
  with w have "w \<noteq> []" by (simp add: truthy_def)
  with blank have "isSpace (hd w)" by (cases w) auto
  then have keep: "map_of (snd (nodesOf m ?names)) w = map_of m w"
    using nodesOf_other[of w m ?names] by simp
  have keep0: "map_of (snd (nodesOf m ?names)) [] = map_of m []"
    using nodesOf_other[of "[]" m ?names] by simp
  from emit zero keep keep0 show ?thesis
    by (intro exI[of _ "fst (nodesOf m ?names)"] exI[of _ "snd (nodesOf m ?names)"]) simp
qed

theorem blank_pin_wired_to_ground_witness:
  "emitComponent (\<lambda>x. []) ([], [(''0'', 0)]) resistorBlank = ([''RR1 0 1 1000''], [(''0'', 0), (''A'', 1)])"
proof -
  have k: "c_kind resistorBlank \<in> {''resistor'', ''capacitor'', ''led'', ''diode'', ''battery'', ''transistor''}"
    by (simp add: resistorBlank_def)
  have t: "orElse (c_type resistorBlank) [] \<notin> DISPLAY_ONLY_TYPES"
    by (simp add: resistorBlank_def orElse_def DISPLAY_ONLY_TYPES_def)
  have p: "\<forall>l \<in> set (requiredPins resistorBlank). truthy (pinNet resistorBlank l)"
    by (simp add: resistorBlank_def requiredPins_def truthy_def pinNet_def)
  have i: "0 < length (requiredPins resistorBlank)"
    by (simp add: requiredPins_def)
  have w: "pinNet resistorBlank (requiredPins resistorBlank ! 0) = Some ''  ''"
    by (simp add: resistorBlank_def requiredPins_def pinNet_def)
  have b: "\<forall>c \<in> set ''  ''. isSpace c"
    by (simp add: isSpace_def)
  have n: "nodesOf [(''0'', 0)] (map (pinNet resistorBlank) (requiredPins resistorBlank)) = ([0, 1], [(''0'', 0), (''A'', 1)])"
    by (simp add: resistorBlank_def requiredPins_def pinNet_def touch_def normalizeNet_def char_simps)
  have d: "deviceLine (\<lambda>x. []) resistorBlank [0, 1] = ''RR1 0 1 1000''"
    by (simp add: deviceLine_def resistorBlank_def orElse_def parseValue_1k natToString.simps digitChar_def)
  from blank_pin_wired_to_ground[OF k t p i w b, of "[(''0'', 0)]" "\<lambda>x. []" "[]"] n d
  show ?thesis by simp
qed


section \<open>Verification: rounding to a double\<close>

text \<open>
  Known doubles: 0.1, 2.01, a third, and the two integers next to \<open>2^53 + 2\<close>, which
  round to even.
\<close>

lemma toDouble_examples:
  "toDouble (1 / 10) = Num (3602879701896397 / 36028797018963968)"
  "toDouble (201 / 100) = Num (1131529406376837 / 562949953421312)"
  "toDouble (- (1 / 3)) = Num (- (6004799503160661 / 18014398509481984))"
  "toDouble (9007199254740993) = Num 9007199254740992"
  "toDouble (9007199254740995) = Num 9007199254740996"
  by code_simp+

text \<open>
  A magnitude of at most \<open>2^-1075\<close>, half the least positive double, rounds to zero, and
  one of at least \<open>2^1024\<close> to infinity.
\<close>

lemma bitLength_gt: "2 ^ k \<le> n \<Longrightarrow> k < bitLength n"
proof (induction k arbitrary: n)
  case 0
  then show ?case by (subst bitLength.simps) simp
next
  case (Suc k)
  then have "2 ^ k \<le> n div 2" by simp
  then have "k < bitLength (n div 2)" by (rule Suc.IH)
  moreover have "n \<noteq> 0"
  proof
    assume "n = 0"
    with Suc.prems show False by simp
  qed
  ultimately show ?case by (subst bitLength.simps) simp
qed

lemma binaryExponent_small:
  assumes pos: "0 < x" and small: "x \<le> 1 / 2 ^ Suc k"
  shows "binaryExponent x \<le> - int (Suc k)"
proof -
  have "(1::rat) \<le> 2 ^ k" by simp
  then have "(1::rat) < 2 * 2 ^ k" by linarith
  then have "(1::rat) / 2 ^ Suc k < 1" by (simp add: field_simps)
  with small have lt1: "x < 1" by (rule le_less_trans)
  have "x * 2 ^ Suc k \<le> 1" using small by (simp add: field_simps)
  then have "2 ^ Suc k \<le> 1 / x" using pos by (simp add: field_simps)
  also have "\<dots> \<le> of_int \<lceil>1 / x\<rceil>" by (rule le_of_int_ceiling)
  finally have "of_int (2 ^ Suc k) \<le> (of_int \<lceil>1 / x\<rceil> :: rat)" by simp
  then have "(2::int) ^ Suc k \<le> \<lceil>1 / x\<rceil>" by (simp only: of_int_le_iff)
  then have "2 * (2::int) ^ k \<le> \<lceil>1 / x\<rceil>" by simp
  moreover have "(1::int) \<le> 2 ^ k" by simp
  ultimately have "(2::int) ^ k \<le> \<lceil>1 / x\<rceil> - 1" by linarith
  then have "int (2 ^ k) \<le> \<lceil>1 / x\<rceil> - 1" by simp
  then have "(2::nat) ^ k \<le> nat (\<lceil>1 / x\<rceil> - 1)" by linarith
  then have "k < bitLength (nat (\<lceil>1 / x\<rceil> - 1))" by (rule bitLength_gt)
  then show ?thesis using lt1 by (simp add: binaryExponent_def)
qed

lemma roundHalfEven_small: "0 \<le> n \<Longrightarrow> n \<le> 1 / 2 \<Longrightarrow> roundHalfEven n = 0"
proof -
  assume a: "0 \<le> n" "n \<le> 1 / 2"
  then have "\<lfloor>n\<rfloor> = 0" by (simp add: floor_eq_iff)
  with a show ?thesis by (auto simp: roundHalfEven_def Let_def)
qed

lemma roundMagnitude_small:
  assumes pos: "0 < x" and small: "x \<le> 1 / 2 ^ Suc k" and k: "k = 1074"
  shows "roundMagnitude x = Some 0"
proof -
  have e: "binaryExponent x \<le> - int (Suc k)" using pos small by (rule binaryExponent_small)
  then have e': "binaryExponent x \<le> - 1075" using k by simp
  have "x * 2 ^ Suc k \<le> 1" using small by (simp add: field_simps)
  then have "x * 2 ^ k \<le> 1 / 2" by simp
  moreover have "0 \<le> x * 2 ^ k" using pos by simp
  ultimately have "roundHalfEven (x * 2 ^ k) = 0" by (rule roundHalfEven_small[rotated])
  moreover have "pow2 (- 1074) = 1 / 2 ^ k" using k by (simp only: pow2_def) simp
  ultimately have "roundHalfEven (x / pow2 (- 1074)) = 0" by simp
  moreover have "max (binaryExponent x) (- 1022) - 52 = - 1074" using e' by simp
  ultimately show ?thesis
    using pos e' by (simp add: roundMagnitude_def Let_def del: power_numeral)
qed

lemma roundMagnitude_underflow:
  assumes pos: "0 < x" and small: "x \<le> 1 / 2 ^ 1075"
  shows "roundMagnitude x = Some 0"
proof -
  have "(1075::nat) = Suc 1074" by simp
  with small have "x \<le> 1 / 2 ^ Suc 1074" by (simp only:)
  with pos show ?thesis by (rule roundMagnitude_small) simp
qed

lemma toDouble_underflow:
  "0 \<le> x \<Longrightarrow> x \<le> 1 / 2 ^ 1075 \<Longrightarrow> toDouble x = Num 0"
  "x < 0 \<Longrightarrow> - x \<le> 1 / 2 ^ 1075 \<Longrightarrow> toDouble x = NegZero"
proof -
  show "toDouble x = Num 0" if "0 \<le> x" "x \<le> 1 / 2 ^ 1075"
  proof (cases "x = 0")
    case True
    then show ?thesis by (simp add: toDouble_def roundSigned_def roundMagnitude_def signedZero_def)
  next
    case False
    with that have "0 < \<bar>x\<bar>" "\<bar>x\<bar> \<le> 1 / 2 ^ 1075" by (simp_all del: power_numeral)
    then have "roundMagnitude \<bar>x\<bar> = Some 0" by (rule roundMagnitude_underflow)
    with that(1) show ?thesis by (simp add: toDouble_def roundSigned_def signedZero_def)
  qed
  show "toDouble x = NegZero" if "x < 0" "- x \<le> 1 / 2 ^ 1075"
  proof -
    from that have "0 < \<bar>x\<bar>" "\<bar>x\<bar> \<le> 1 / 2 ^ 1075" by (simp_all del: power_numeral)
    then have "roundMagnitude \<bar>x\<bar> = Some 0" by (rule roundMagnitude_underflow)
    with that(1) show ?thesis by (simp add: toDouble_def roundSigned_def signedZero_def)
  qed
qed

lemma roundMagnitude_overflow:
  assumes "2 ^ 1024 \<le> x"
  shows "roundMagnitude x = None"
proof -
  have big: "(2::rat) ^ 1024 \<le> x" using assms .
  have "(1::rat) \<le> 2 ^ 1024" by (rule one_le_power) simp
  from this big have one: "1 \<le> x" by (rule order_trans)
  have "of_int (2 ^ 1024) \<le> x" using big by simp
  then have "(2::int) ^ 1024 \<le> \<lfloor>x\<rfloor>" by (simp only: le_floor_iff)
  then have "int (2 ^ 1024) \<le> \<lfloor>x\<rfloor>" by simp
  then have "(2::nat) ^ 1024 \<le> nat \<lfloor>x\<rfloor>" by linarith
  then have "1024 < bitLength (nat \<lfloor>x\<rfloor>)" by (rule bitLength_gt)
  then have "1024 \<le> binaryExponent x" using one by (simp add: binaryExponent_def)
  moreover have "x \<noteq> 0" using one by auto
  ultimately show ?thesis by (simp add: roundMagnitude_def Let_def)
qed

lemma toDouble_overflow: "2 ^ 1024 \<le> x \<Longrightarrow> toDouble x = PosInf"
proof -
  assume big: "2 ^ 1024 \<le> x"
  have "(0::rat) \<le> 2 ^ 1024" by simp
  from this big have "0 \<le> x" by (rule order_trans)
  moreover from this big have "roundMagnitude \<bar>x\<bar> = None"
    by (intro roundMagnitude_overflow) (simp del: power_numeral)
  ultimately show ?thesis by (simp add: toDouble_def roundSigned_def signedInf_def)
qed

section \<open>Verification: the quantity parser\<close>

text \<open>The matcher lists exactly the ways in which a simple pattern matches a head of the input.\<close>

lemma set_stars: "set (stars P s) = {t. \<exists>u. s = u @ t \<and> list_all P u}"
proof (induction s)
  case Nil
  then show ?case by auto
next
  case (Cons c cs)
  show ?case
  proof (intro set_eqI iffI)
    fix t assume "t \<in> set (stars P (c # cs))"
    then consider "t = c # cs" | "P c" "t \<in> set (stars P cs)" by (auto split: if_splits)
    then show "t \<in> {t. \<exists>u. c # cs = u @ t \<and> list_all P u}"
    proof cases
      case 1
      then show ?thesis by (auto intro: exI[of _ "[]"])
    next
      case 2
      with Cons obtain u where "cs = u @ t" "list_all P u" by auto
      with 2 show ?thesis by (auto intro: exI[of _ "c # u"])
    qed
  next
    fix t assume "t \<in> {t. \<exists>u. c # cs = u @ t \<and> list_all P u}"
    then obtain u where u: "c # cs = u @ t" "list_all P u" by auto
    show "t \<in> set (stars P (c # cs))"
    proof (cases u)
      case Nil
      with u show ?thesis by auto
    next
      case (Cons a u')
      with u have "P c" "cs = u' @ t" "list_all P u'" by auto
      with Cons.IH show ?thesis by auto
    qed
  qed
qed

lemma set_lazies: "set (lazies P s) = {t. \<exists>u. s = u @ t \<and> list_all P u}"
proof (induction s)
  case Nil
  then show ?case by auto
next
  case (Cons c cs)
  show ?case
  proof (intro set_eqI iffI)
    fix t assume "t \<in> set (lazies P (c # cs))"
    then consider "t = c # cs" | "P c" "t \<in> set (lazies P cs)" by (auto split: if_splits)
    then show "t \<in> {t. \<exists>u. c # cs = u @ t \<and> list_all P u}"
    proof cases
      case 1
      then show ?thesis by (auto intro: exI[of _ "[]"])
    next
      case 2
      with Cons obtain u where "cs = u @ t" "list_all P u" by auto
      with 2 show ?thesis by (auto intro: exI[of _ "c # u"])
    qed
  next
    fix t assume "t \<in> {t. \<exists>u. c # cs = u @ t \<and> list_all P u}"
    then obtain u where u: "c # cs = u @ t" "list_all P u" by auto
    show "t \<in> set (lazies P (c # cs))"
    proof (cases u)
      case Nil
      with u show ?thesis by auto
    next
      case (Cons a u')
      with u have "P c" "cs = u' @ t" "list_all P u'" by auto
      with Cons.IH show ?thesis by auto
    qed
  qed
qed

lemma set_rxm_simple:
  "simple r \<Longrightarrow> set (rxm r s) = {([], t) | t. \<exists>u \<in> lang r. s = u @ t}"
proof (induction r arbitrary: s)
  case (Cls P)
  then show ?case by (cases s) auto
next
  case (Seq a b)
  then have a: "\<And>s. set (rxm a s) = {([], t) | t. \<exists>u \<in> lang a. s = u @ t}"
    and b: "\<And>s. set (rxm b s) = {([], t) | t. \<exists>u \<in> lang b. s = u @ t}" by simp_all
  show ?case
  proof (intro set_eqI iffI)
    fix e assume "e \<in> set (rxm (Seq a b) s)"
    then obtain g r h t where "(g, r) \<in> set (rxm a s)" "(h, t) \<in> set (rxm b r)" "e = (g @ h, t)"
      by auto
    with a[of s] b[of r] obtain u v where "g = []" "h = []" "u \<in> lang a" "s = u @ r" "v \<in> lang b" "r = v @ t"
      by auto
    with \<open>e = (g @ h, t)\<close> show "e \<in> {([], t) | t. \<exists>u \<in> lang (Seq a b). s = u @ t}"
      by (auto intro!: bexI[of _ "u @ v"])
  next
    fix e :: "string list \<times> string"
    assume "e \<in> {([], t) | t. \<exists>u \<in> lang (Seq a b). s = u @ t}"
    then obtain t u v where e: "e = ([], t)" "u \<in> lang a" "v \<in> lang b" "s = (u @ v) @ t" by auto
    then have "([], v @ t) \<in> set (rxm a s)" using a[of s] by auto
    moreover have "([], t) \<in> set (rxm b (v @ t))" using b[of "v @ t"] e by auto
    ultimately show "e \<in> set (rxm (Seq a b) s)" using e by force
  qed
next
  case (Alt a b)
  then show ?case by auto
next
  case (Opt a)
  then show ?case by auto
next
  case (Star P)
  then show ?case by (auto simp: set_stars)
next
  case (Plus P)
  show ?case
  proof (cases s)
    case Nil
    then show ?thesis by auto
  next
    case (Cons c cs)
    show ?thesis
    proof (cases "P c")
      case True
      have "(\<exists>u. cs = u @ t \<and> list_all P u) = (\<exists>u. u \<noteq> [] \<and> list_all P u \<and> c # cs = u @ t)" for t
      proof
        assume "\<exists>u. cs = u @ t \<and> list_all P u"
        then obtain u where "cs = u @ t" "list_all P u" by blast
        with True have "c # u \<noteq> [] \<and> list_all P (c # u) \<and> c # cs = (c # u) @ t" by simp
        then show "\<exists>u. u \<noteq> [] \<and> list_all P u \<and> c # cs = u @ t" by blast
      next
        assume "\<exists>u. u \<noteq> [] \<and> list_all P u \<and> c # cs = u @ t"
        then obtain u where u: "u \<noteq> []" "list_all P u" "c # cs = u @ t" by blast
        then obtain u' where "u = c # u'" by (cases u) auto
        with u have "cs = u' @ t \<and> list_all P u'" by simp
        then show "\<exists>u. cs = u @ t \<and> list_all P u" by blast
      qed
      then have "{t. \<exists>u. cs = u @ t \<and> list_all P u} = {t. \<exists>u. u \<noteq> [] \<and> list_all P u \<and> c # cs = u @ t}"
        by simp
      with True Cons show ?thesis by (auto simp: set_stars)
    next
      case False
      with Cons show ?thesis by (auto simp: Cons_eq_append_conv)
    qed
  qed
next
  case (Lazy P)
  then show ?case by (auto simp: set_lazies)
next
  case (Grp r)
  then show ?case by simp
next
  case Eol
  then show ?case by simp
qed


lemma lang_SeqI: "u \<in> lang a \<Longrightarrow> v \<in> lang b \<Longrightarrow> u @ v \<in> lang (Seq a b)"
  by auto

lemma lang_SeqE:
  assumes "w \<in> lang (Seq a b)"
  obtains u v where "w = u @ v" "u \<in> lang a" "v \<in> lang b"
  using assms by auto

lemma lang_sign: "sg = [] \<or> sg = ''+'' \<or> sg = ''-'' \<Longrightarrow> sg \<in> lang (Opt (Cls isSign))"
  by (auto simp: isSign_def)

lemma lang_point: "dt = [] \<or> dt = ''.'' \<Longrightarrow> dt \<in> lang (Opt (Cls isPoint))"
  by (auto simp: isPoint_def)

lemma mantissaRe_alt:
  "mantissaRe =
     Seq (Opt (Cls isSign)) (Seq (Star isDigit) (Seq (Opt (Cls isPoint)) (Seq (Plus isDigit) (Opt exponentRe))))"
  by (simp add: mantissaRe_def exponentRe_def)

lemma lang_exponentI:
  assumes "isExp e" "sg = [] \<or> sg = ''+'' \<or> sg = ''-''" "ds \<noteq> []" "list_all isDigit ds"
  shows "e # sg @ ds \<in> lang exponentRe"
proof -
  have "[e] \<in> lang (Cls isExp)" using assms(1) by simp
  moreover have "sg @ ds \<in> lang (Seq (Opt (Cls isSign)) (Plus isDigit))"
    using assms by (intro lang_SeqI lang_sign) simp_all
  ultimately have "[e] @ (sg @ ds) \<in> lang exponentRe"
    unfolding exponentRe_def by (rule lang_SeqI)
  then show ?thesis by simp
qed

lemma lang_exponentD:
  assumes "w \<in> lang exponentRe"
  shows "w \<noteq> [] \<and> isDigit (last w) \<and> (\<forall>c \<in> set w. isExp c \<or> isSign c \<or> isDigit c)"
proof -
  from assms obtain u v where w: "w = u @ v" "u \<in> lang (Cls isExp)" "v \<in> lang (Seq (Opt (Cls isSign)) (Plus isDigit))"
    unfolding exponentRe_def by (meson lang_SeqE)
  from w(3) obtain sg ds where v: "v = sg @ ds" "sg \<in> lang (Opt (Cls isSign))" "ds \<in> lang (Plus isDigit)"
    by (meson lang_SeqE)
  from v(3) have ds: "ds \<noteq> []" "list_all isDigit ds" by simp_all
  then have "isDigit (last ds)" by (simp add: list_all_iff)
  with w v ds show ?thesis by (auto simp: list_all_iff)
qed

lemma isMantissa_lang: assumes "isMantissa x" shows "x \<in> lang mantissaRe"
proof -
  from assms obtain sg ip dt fp ex where x: "x = sg @ ip @ dt @ fp @ ex"
    and sg: "sg = [] \<or> sg = ''+'' \<or> sg = ''-''"
    and ip: "list_all isDigit ip"
    and dt: "dt = [] \<or> dt = ''.''"
    and fp: "fp \<noteq> []" "list_all isDigit fp"
    and ex: "ex = [] \<or> (\<exists>e sg' ds. ex = e # sg' @ ds \<and> isExp e \<and> (sg' = [] \<or> sg' = ''+'' \<or> sg' = ''-'')
               \<and> ds \<noteq> [] \<and> list_all isDigit ds)"
    unfolding isMantissa_def by blast
  from ex have "ex \<in> lang (Opt exponentRe)" using lang_exponentI by auto
  moreover from fp have "fp \<in> lang (Plus isDigit)" by simp
  moreover from ip have "ip \<in> lang (Star isDigit)" by simp
  ultimately show ?thesis
    unfolding mantissaRe_alt x using sg dt
    by (intro lang_SeqI lang_sign lang_point)
qed

lemma lang_mantissaD:
  assumes "u \<in> lang mantissaRe"
  shows "u \<noteq> [] \<and> isDigit (last u)"
proof -
  from assms obtain sg r1 where 1: "u = sg @ r1" "r1 \<in> lang (Seq (Star isDigit) (Seq (Opt (Cls isPoint)) (Seq (Plus isDigit) (Opt exponentRe))))"
    unfolding mantissaRe_alt by (meson lang_SeqE)
  from 1(2) obtain ip r2 where 2: "r1 = ip @ r2" "r2 \<in> lang (Seq (Opt (Cls isPoint)) (Seq (Plus isDigit) (Opt exponentRe)))"
    by (meson lang_SeqE)
  from 2(2) obtain dt r3 where 3: "r2 = dt @ r3" "r3 \<in> lang (Seq (Plus isDigit) (Opt exponentRe))"
    by (meson lang_SeqE)
  from 3(2) obtain fp ex where 4: "r3 = fp @ ex" "fp \<in> lang (Plus isDigit)" "ex \<in> lang (Opt exponentRe)"
    by (meson lang_SeqE)
  from 4(2) have fp: "fp \<noteq> []" "isDigit (last fp)" by (simp_all add: list_all_iff)
  from 4(3) have "ex = [] \<or> (ex \<noteq> [] \<and> isDigit (last ex))" using lang_exponentD by auto
  with fp have "r3 \<noteq> [] \<and> isDigit (last r3)" unfolding 4(1) by auto
  then show ?thesis unfolding 1(1) 2(1) 3(1) by auto
qed

lemma isMantissa_chars:
  assumes "isMantissa x"
  shows "\<forall>c \<in> set x. isExp c \<or> isSign c \<or> isDigit c \<or> isPoint c"
proof -
  from assms obtain sg ip dt fp ex where x: "x = sg @ ip @ dt @ fp @ ex"
    and sg: "sg = [] \<or> sg = ''+'' \<or> sg = ''-''"
    and ip: "list_all isDigit ip"
    and dt: "dt = [] \<or> dt = ''.''"
    and fp: "fp \<noteq> []" "list_all isDigit fp"
    and ex: "ex = [] \<or> (\<exists>e sg' ds. ex = e # sg' @ ds \<and> isExp e \<and> (sg' = [] \<or> sg' = ''+'' \<or> sg' = ''-'')
               \<and> ds \<noteq> [] \<and> list_all isDigit ds)"
    unfolding isMantissa_def by blast
  have "\<forall>c \<in> set sg. isSign c" using sg by (auto simp: isSign_def)
  moreover have "\<forall>c \<in> set dt. isPoint c" using dt by (auto simp: isPoint_def)
  moreover have "\<forall>c \<in> set ex. isExp c \<or> isSign c \<or> isDigit c"
    using ex by (auto simp: isSign_def list_all_iff)
  ultimately show ?thesis using ip fp unfolding x by (auto simp: list_all_iff)
qed


lemma stars_end:
  "concat (map (\<lambda>t. if t = [] then [f t] else []) (stars P r)) = (if list_all P r then [f []] else [])"
  by (induction r) auto

lemma rxm_suffix_end:
  "rxm (Seq (Grp (Star L)) Eol) r = (if list_all L r then [([r], [])] else [])"
proof -
  have "rxm (Seq (Grp (Star L)) Eol) r =
      concat (map (\<lambda>t. if t = [] then [([take (length r - length t) r], [])] else []) (stars L r))"
    by (simp add: map_concat comp_def case_prod_beta cong: map_cong)
       (rule arg_cong[where f = concat], rule map_cong, auto)
  then show ?thesis by (simp add: stars_end)
qed

lemma rxm_valueRe:
  "rxm valueRe s =
     map (\<lambda>e. (fst e @ [take (length s - length (snd e)) s, snd e], []))
       (filter (\<lambda>e. list_all isSuffixChar (snd e)) (rxm mantissaRe s))"
proof -
  have "concat (map (\<lambda>(g, r). map (\<lambda>(h, t). (g @ h, t)) (rxm (Seq (Grp (Star isSuffixChar)) Eol) r))
          (map (\<lambda>(g, r). (g @ [take (length s - length r) s], r)) xs))
      = map (\<lambda>e. (fst e @ [take (length s - length (snd e)) s, snd e], []))
          (filter (\<lambda>e. list_all isSuffixChar (snd e)) xs)" for xs
    by (induction xs) (auto simp: rxm_suffix_end simp del: rxm.simps)
  then show ?thesis by (simp add: valueRe_def)
qed

lemma digit_not_suffix: "isDigit c \<Longrightarrow> \<not> isSuffixChar c"
  by (auto simp: isDigit_def isSuffixChar_def isAlpha_def isLower_def isUpper_def)

lemma split_unique:
  assumes eq: "x @ suf = u @ r"
    and x: "x \<noteq> []" "isDigit (last x)"
    and u: "u \<noteq> []" "isDigit (last u)"
    and suf: "list_all isSuffixChar suf"
    and r: "list_all isSuffixChar r"
  shows "u = x \<and> r = suf"
proof -
  from eq consider (a) d where "x = u @ d" "r = d @ suf" | (b) d where "u = x @ d" "suf = d @ r"
    by (auto simp: append_eq_append_conv2)
  then show ?thesis
  proof cases
    case a
    have "d = []"
    proof (rule ccontr)
      assume "d \<noteq> []"
      with a x have "isDigit (last d)" by simp
      moreover from \<open>d \<noteq> []\<close> a r have "isSuffixChar (last d)" by (auto simp: list_all_iff)
      ultimately show False using digit_not_suffix by blast
    qed
    with a show ?thesis by simp
  next
    case b
    have "d = []"
    proof (rule ccontr)
      assume "d \<noteq> []"
      with b u have "isDigit (last d)" by simp
      moreover from \<open>d \<noteq> []\<close> b suf have "isSuffixChar (last d)" by (auto simp: list_all_iff)
      ultimately show False using digit_not_suffix by blast
    qed
    with b show ?thesis by simp
  qed
qed

lemma simple_mantissaRe: "simple mantissaRe"
  by (simp add: mantissaRe_def)

lemma matchAt_valueRe:
  assumes x: "isMantissa x" and suf: "list_all isSuffixChar suf"
  shows "matchAt valueRe (x @ suf) = Some [x, suf]"
proof -
  let ?s = "x @ suf"
  let ?F = "filter (\<lambda>e. list_all isSuffixChar (snd e)) (rxm mantissaRe ?s)"
  have sem: "set (rxm mantissaRe ?s) = {([], t) | t. \<exists>u \<in> lang mantissaRe. ?s = u @ t}"
    using simple_mantissaRe by (rule set_rxm_simple)
  have xl: "x \<in> lang mantissaRe" using x by (rule isMantissa_lang)
  have xd: "x \<noteq> [] \<and> isDigit (last x)" using xl by (rule lang_mantissaD)
  have "([], suf) \<in> set ?F" using sem xl suf by auto
  moreover have "e = ([], suf)" if "e \<in> set ?F" for e
  proof -
    from that sem obtain t u where e: "e = ([], t)" "u \<in> lang mantissaRe" "?s = u @ t" "list_all isSuffixChar t"
      by auto
    from lang_mantissaD[OF e(2)] split_unique[OF e(3) _ _ _ _ suf e(4)] xd
    have "t = suf" by blast
    with e show ?thesis by simp
  qed
  ultimately obtain es where "?F = ([], suf) # es"
    by (cases ?F) auto
  then show ?thesis by (simp add: matchAt_def rxm_valueRe del: rxm.simps)
qed

lemma dropWhile_none: "\<forall>c \<in> set s. \<not> P c \<Longrightarrow> dropWhile P s = s"
  by (cases s) auto

lemma trim_id: "\<forall>c \<in> set s. \<not> isSpace c \<Longrightarrow> trim s = s"
  by (simp add: trim_def dropWhile_none)

lemma mantissa_char_plain:
  "isExp c \<or> isSign c \<or> isDigit c \<or> isPoint c \<Longrightarrow> c \<noteq> CHR ''_'' \<and> \<not> isSpace c"
  by (auto simp: isExp_def isSign_def isDigit_def isPoint_def isSpace_def)

lemma suffix_char_plain: "isSuffixChar c \<Longrightarrow> c \<noteq> CHR ''_'' \<and> \<not> isSpace c"
  by (auto simp: isSuffixChar_def isAlpha_def isLower_def isUpper_def isSpace_def)

lemma cleaned_id:
  assumes "isMantissa x" "list_all isSuffixChar suf"
  shows "filter (\<lambda>c. c \<noteq> CHR ''_'' \<and> \<not> isSpace c) (trim (x @ suf)) = x @ suf"
proof -
  have "\<forall>c \<in> set (x @ suf). c \<noteq> CHR ''_'' \<and> \<not> isSpace c"
    using isMantissa_chars[OF assms(1)] assms(2) mantissa_char_plain suffix_char_plain
    by (auto simp: list_all_iff)
  then show ?thesis by (simp add: trim_id filter_id_conv)
qed

text \<open>
  Claim C4, as amended. For a numeric mantissa \<open>x\<close> followed by letters, \<open>parseValue\<close>
  returns the product, in double arithmetic, of the double nearest to \<open>x\<close> and the factor
  of the suffix, read without regard to case: t, g, meg, k, m (milli), u or the micro
  sign, n, p, f, and 1 for any other letters or none. So \<open>M\<close> is milli like \<open>m\<close>, and
  mega is \<open>meg\<close> in any case. Should the number overflow, the fallback is returned.
\<close>

theorem parseValue_prefix_table:
  assumes "isMantissa x" and "list_all isSuffixChar suf"
  shows "parseValue (Some (x @ suf)) fallback =
           (if isFinite (jsNumber x) then
              jmul (jsNumber x)
                (let l = toLowerCase suf
                 in if l = ''t'' then toDouble (10 ^ 12)
                    else if l = ''g'' then toDouble (10 ^ 9)
                    else if l = ''meg'' then toDouble (10 ^ 6)
                    else if l = ''k'' then toDouble (10 ^ 3)
                    else if l = ''m'' then toDouble (1 / 10 ^ 3)
                    else if l = ''u'' \<or> l = [CHR 0xB5] then toDouble (1 / 10 ^ 6)
                    else if l = ''n'' then toDouble (1 / 10 ^ 9)
                    else if l = ''p'' then toDouble (1 / 10 ^ 12)
                    else if l = ''f'' then toDouble (1 / 10 ^ 15)
                    else Num 1)
            else fallback)"
  using matchAt_valueRe[OF assms] cleaned_id[OF assms]
  by (simp add: parseValue_def suffixMult_def Let_def)

lemma isMantissa_1: "isMantissa ''1''"
  unfolding isMantissa_def
  by (rule exI[of _ "[]"], rule exI[of _ "[]"], rule exI[of _ "[]"], rule exI[of _ "''1''"],
      rule exI[of _ "[]"]) (simp add: isDigit_def)

lemma jsNumber_1: "jsNumber ''1'' = Num 1"
  by code_simp

lemma one_times_factor:
  "jmul (Num 1) (toDouble (10 ^ 3)) = Num 1000"
  "jmul (Num 1) (toDouble (10 ^ 6)) = Num 1000000"
  "jmul (Num 1) (toDouble (1 / 10 ^ 3)) = toDouble (1 / 1000)"
  by code_simp+

theorem parseValue_prefix_table_witness:
  "parseValue (Some ''1k'') (Num 0) = Num 1000
   \<and> parseValue (Some ''1K'') (Num 0) = Num 1000
   \<and> parseValue (Some ''1meg'') (Num 0) = Num 1000000
   \<and> parseValue (Some ''1MEG'') (Num 0) = Num 1000000
   \<and> parseValue (Some ''1m'') (Num 0) = toDouble (1 / 1000)
   \<and> parseValue (Some ''1M'') (Num 0) = toDouble (1 / 1000)"
  using parseValue_prefix_table[OF isMantissa_1, of "''k''" "Num 0"]
    parseValue_prefix_table[OF isMantissa_1, of "''K''" "Num 0"]
    parseValue_prefix_table[OF isMantissa_1, of "''meg''" "Num 0"]
    parseValue_prefix_table[OF isMantissa_1, of "''MEG''" "Num 0"]
    parseValue_prefix_table[OF isMantissa_1, of "''m''" "Num 0"]
    parseValue_prefix_table[OF isMantissa_1, of "''M''" "Num 0"]
  unfolding jsNumber_1
  by (simp add: isSuffixChar_def char_simps one_times_factor del: power_numeral)

text \<open>
  Claim C4 as stated fails at \<open>"1M"\<close>: the suffix is lower-cased before the table is
  consulted, so the result is 0.001 (the double nearest to it) and not 1000000.
\<close>

theorem uppercase_M_is_milli:
  "parseValue (Some ''1M'') (Num 0) = Num (1152921504606847 / 1152921504606846976)
   \<and> parseValue (Some ''1M'') (Num 0) = toDouble (1 / 1000)
   \<and> parseValue (Some ''1M'') (Num 0) \<noteq> Num 1000000"
  by code_simp

text \<open>
  The product is rounded as the double product of the program is: \<open>"2.01k"\<close> is
  2009.9999999999998 and not 2010.
\<close>

lemma parseValue_rounds:
  "parseValue (Some ''2.01k'') (Num 0) = Num (8840073487319039 / 4398046511104)
   \<and> parseValue (Some ''2.01k'') (Num 0) \<noteq> Num 2010"
  by code_simp

text \<open>
  A mantissa too small for a double is a zero of its sign, and one too large is not
  finite, so the fallback is returned.
\<close>

lemma out_of_range_exponents:
  "parseValue (Some ''1e-400'') (Num 7) = Num 0
   \<and> parseValue (Some ''-1e-400'') (Num 7) = NegZero
   \<and> parseValue (Some ''1e400'') (Num 7) = Num 7"
proof -
  have m: "matchAt valueRe ''1e-400'' = Some [''1e-400'', []]"
    "matchAt valueRe ''-1e-400'' = Some [''-1e-400'', []]"
    "matchAt valueRe ''1e400'' = Some [''1e400'', []]"
    by code_simp+
  have tiny: "toDouble (1 / 10 ^ 400) = Num 0"
    by (rule toDouble_underflow) simp_all
  have huge: "toDouble (10 ^ 400) = PosInf"
    by (rule toDouble_overflow) simp
  have n: "jsNumber ''1e-400'' = Num 0" "jsNumber ''-1e-400'' = NegZero" "jsNumber ''1e400'' = PosInf"
    using tiny huge
    by (simp_all add: jsNumber_def parseRadix_def parseSigned_def parseUnsigned_def parseExp_def
          digitsVal_def digitVal_def pow10_def char_simps)
  have z: "jmul (Num 0) (Num 1) = Num 0" "jmul NegZero (Num 1) = NegZero"
    by (simp_all add: jmul_def roundSigned_def roundMagnitude_def signedZero_def)
  show ?thesis
    by (simp add: parseValue_def m n z suffixMult_def char_simps)
qed

text \<open>
  The second parser, \<open>parseSI\<close>, takes a final \<open>m\<close> or \<open>M\<close> for a unit letter and drops
  it, and has no entry for \<open>meg\<close>.
\<close>

lemma parseSI_examples:
  "parseSI (Some ''1k'') = Num 1000
   \<and> parseSI (Some ''1K'') = Num 1000
   \<and> parseSI (Some ''1meg'') = Num 1
   \<and> parseSI (Some ''1M'') = Num 1
   \<and> parseSI (Some ''1m'') = Num 1
   \<and> parseSI (Some ''1mV'') = toDouble (1 / 1000)
   \<and> parseSI (Some ''1MV'') = toDouble (1 / 1000)"
  by code_simp

section \<open>Verification: the rows without delimiters\<close>

text \<open>
  Claim C5 does not hold of the code. On the row of the claim, the first pattern takes
  every leading digit: the index is 4999994, not 499999. What follows starts with a
  point, which no number of the second pattern can start with, so the tokens are
  \<open>999830e-024\<close>, \<open>999830e-025\<close> and \<open>000000e+00\<close>: three values, the doubles nearest
  to 9.9983e-19 and to 9.9983e-20, and 0.
\<close>

theorem concatenated_row_tokens:
  "tokenizeConcatenatedLine ''4999994.999830e-024.999830e-025.000000e+00'' =
     Some (Num 4999994, [toDouble (999830 / 10 ^ 24), toDouble (999830 / 10 ^ 25), Num 0])"
  by code_simp

lemma concatenated_row_matches:
  "matchAt indexRe ''4999994.999830e-024.999830e-025.000000e+00'' =
     Some [''4999994'', ''.999830e-024.999830e-025.000000e+00'']
   \<and> matchAll numRe ''.999830e-024.999830e-025.000000e+00'' =
     [''999830e-024'', ''999830e-025'', ''000000e+00'']"
  by code_simp

section \<open>Verification: acceptance of a transient result\<close>

text \<open>A result of the custom tabular format has more than 100 time points.\<close>

lemma counted_customRow: "counted st \<Longrightarrow> counted (customRow st line)"
  by (cases st)
     (auto simp: counted_def customRow_def Let_def split: option.splits list.splits prod.splits)

lemma counted_foldl: "counted st \<Longrightarrow> counted (foldl customRow st ls)"
  by (induction ls arbitrary: st) (simp_all add: counted_customRow)

lemma custom_format_threshold:
  "parseCustomTransientFormat dataLines = Some td \<Longrightarrow> 100 < length (time td)"
  using counted_foldl[of "([], [], 0, 0)" "splitLines dataLines"]
  by (auto simp: parseCustomTransientFormat_def counted_def split: prod.splits if_splits)


lemma td_onePoint:
  "parseTransientData outputOnePoint = Some \<lparr>time = [Num 0], voltages = [(''1'', [Num 5])], currents = []\<rparr>"
  by code_simp

lemma op_onePoint: "foldl opLine [] (splitOn (CHR 0x0A) outputOnePoint) = [(''v_1'', Num 5)]"
  by code_simp

text \<open>
  Claim C6 does not hold of the code. When an operating point is found,
  \<open>parseNgSpiceOutput\<close> attaches whatever \<open>parseTransientData\<close> returns, and the
  Variables/Values branch of \<open>parseTransientData\<close> has no threshold. On an output with one
  operating-point line and one row of values the result carries a transient of a single
  time point, below both thresholds of the code (2 and 100).
\<close>

theorem one_point_transient_attached:
  "runNgSpice fmt lastNetlist (Closed (Some 0) outputOnePoint err) =
     \<lparr>success = True, operatingPoint = Some [(''v_1'', Num 5)], resultMap = None,
      transientData = Some \<lparr>time = [Num 0], voltages = [(''1'', [Num 5])], currents = []\<rparr>,
      error = None\<rparr>"
  by (simp add: runNgSpice_def parseNgSpiceOutput_def op_onePoint td_onePoint emptyResult_def)

lemma op_empty_output: "operatingPoint (parseNgSpiceOutput []) = None"
  by code_simp

section \<open>Verification: the analytic fallback\<close>

lemma scanLine_alt:
  "scanLine (v, r) line =
     ((case vLine line of Some d \<Rightarrow> Some d | None \<Rightarrow> v),
      (case rLine line of Some d \<Rightarrow> Some d | None \<Rightarrow> r))"
  by (simp add: scanLine_def vLine_def rLine_def Let_def split: option.splits)

lemma isVLine_iff: "vLine l = None \<Longrightarrow> \<not> isVLine l" "vLine l = Some d \<Longrightarrow> isVLine l"
  by (simp_all add: isVLine_def)

lemma isRLine_iff: "rLine l = None \<Longrightarrow> \<not> isRLine l" "rLine l = Some d \<Longrightarrow> isRLine l"
  by (simp_all add: isRLine_def)

lemma scan_none:
  "filter isVLine ls = [] \<Longrightarrow> fst (foldl scanLine (v, r) ls) = v"
  "filter isRLine ls = [] \<Longrightarrow> snd (foldl scanLine (v, r) ls) = r"
  by (induction ls arbitrary: v r)
     (auto simp: scanLine_alt isVLine_iff isRLine_iff split: if_splits option.splits)

lemma op_unchanged:
  "operatingPoint (case parseTransientData out of None \<Rightarrow> rs
      | Some td \<Rightarrow> if length (time td) > 2 then rs\<lparr>transientData := Some td\<rparr> else rs)
   = operatingPoint rs"
  by (simp split: option.splits)

lemma run_fallback:
  assumes "operatingPoint (parseNgSpiceOutput out) = None"
  shows "runNgSpice fmt nl (Closed (Some 0) out err) = (performBasicCircuitAnalysis fmt nl)\<lparr>success := True\<rparr>"
  using assms by (simp add: runNgSpice_def Let_def op_unchanged del: One_nat_def)

lemma success_exit_zero: "success (runNgSpice fmt lastNetlist (Closed (Some 0) out err))"
  by (simp add: runNgSpice_def Let_def split: option.splits)

text \<open>
  Claim C7, as amended. When the engine exits with code 0, no operating point is decoded
  and the scan of the deck misses a voltage source line or a resistor line, the result
  has \<open>success\<close> true, an empty operating point, a transient with the two time stamps
  0 and 0.001 and no series, and no error. \<open>success\<close> is false only when the engine
  cannot be started or does not exit with code 0.
\<close>

theorem fallback_without_topology_reports_success:
  assumes noOp: "operatingPoint (parseNgSpiceOutput out) = None"
    and noTopology: "filter isVLine (splitOn (CHR 0x0A) netlist) = []
                     \<or> filter isRLine (splitOn (CHR 0x0A) netlist) = []"
  shows "runNgSpice fmt (Some netlist) (Closed (Some 0) out err) =
           \<lparr>success = True, operatingPoint = Some [], resultMap = None,
            transientData = Some \<lparr>time = [Num 0, toDouble (1 / 1000)], voltages = [], currents = []\<rparr>,
            error = None\<rparr>
         \<and> (\<forall>run. success (runNgSpice fmt (Some netlist) run) = (\<exists>sout serr. run = Closed (Some 0) sout serr))"
proof -
  obtain v r where vr: "foldl scanLine (None, None) (splitOn (CHR 0x0A) netlist) = (v, r)"
    by (cases "foldl scanLine (None, None) (splitOn (CHR 0x0A) netlist)")
  from noTopology have "v = None \<or> r = None"
    using scan_none[of "splitOn (CHR 0x0A) netlist" None None] vr by auto
  then have "performBasicCircuitAnalysis fmt (Some netlist) =
      emptyResult\<lparr>operatingPoint := Some [],
        transientData := Some \<lparr>time = [Num 0, toDouble (1 / 1000)], voltages = [], currents = []\<rparr>\<rparr>"
    using vr by (auto simp: performBasicCircuitAnalysis_def split: option.splits)
  with run_fallback[OF noOp] have first: "runNgSpice fmt (Some netlist) (Closed (Some 0) out err) =
           \<lparr>success = True, operatingPoint = Some [], resultMap = None,
            transientData = Some \<lparr>time = [Num 0, toDouble (1 / 1000)], voltages = [], currents = []\<rparr>,
            error = None\<rparr>"
    by (simp add: emptyResult_def)
  have "success (runNgSpice fmt (Some netlist) run) = (\<exists>sout serr. run = Closed (Some 0) sout serr)" for run
  proof (cases run)
    case (SpawnError msg)
    then show ?thesis by (simp add: runNgSpice_def emptyResult_def)
  next
    case (Closed code sout serr)
    show ?thesis
    proof (cases "code = Some 0")
      case True
      with Closed show ?thesis using success_exit_zero[of fmt "Some netlist" sout serr] by simp
    next
      case False
      with Closed show ?thesis by (simp add: runNgSpice_def emptyResult_def)
    qed
  qed
  with first show ?thesis by blast
qed

text \<open>
  Claim C8 does not hold of the code. A 5 V battery without a reference designator and
  the 1 k resistor R1 give a deck with one DC source line of 5 volts, \<open>VV? 1 0 DC 5\<close>,
  and one resistor line, \<open>RR1 1 0 1000\<close>. The pattern of the fallback wants word
  characters after the \<open>V\<close>, where the placeholder written by the compiler has a question
  mark: no source is found, no current is recorded and the transient has no series.
\<close>

theorem unnamed_source_not_recognised:
  "filter (\<lambda>l. take 1 l = ''V'') (splitOn (CHR 0x0A) (fst (generateSimpleSpiceNetlist (\<lambda>x. []) [batteryNoRef, resistorR1])))
     = [''VV? 1 0 DC 5'']
   \<and> filter (\<lambda>l. take 1 l = ''R'') (splitOn (CHR 0x0A) (fst (generateSimpleSpiceNetlist (\<lambda>x. []) [batteryNoRef, resistorR1])))
     = [''RR1 1 0 1000'']
   \<and> operatingPoint (parseNgSpiceOutput []) = None
   \<and> simulate (\<lambda>x. []) [batteryNoRef, resistorR1] (Closed (Some 0) [] []) =
       \<lparr>success = True, operatingPoint = Some [], resultMap = Some [(''0'', 0), (''VCC'', 1)],
        transientData = Some \<lparr>time = [Num 0, toDouble (1 / 1000)], voltages = [], currents = []\<rparr>,
        error = None\<rparr>"
  by code_simp

text \<open>
  With the reference designator \<open>V1\<close> the source line is \<open>VV1 1 0 DC 5\<close>, the fallback
  reads both devices and records the current 0.005 (the double nearest to it).
\<close>

lemma named_source_recognised:
  "simulate (\<lambda>x. []) [batteryV1, resistorR1] (Closed (Some 0) [] []) =
     \<lparr>success = True,
      operatingPoint = Some [(''v_1'', Num 5), (''v_0'', Num 0), (''i_vv1'', toDouble (5 / 1000))],
      resultMap = Some [(''0'', 0), (''VCC'', 1)],
      transientData =
        Some \<lparr>time = [Num 0, toDouble (1 / 1000)],
              voltages = [(''1'', [Num 5, Num 5]), (''0'', [Num 0, Num 0])],
              currents = [(''vv1'', [toDouble (5 / 1000), toDouble (5 / 1000)])]\<rparr>,
      error = None\<rparr>"
  by code_simp

text \<open>
  Claim C7 as stated fails on the deck of the empty circuit with an empty engine output:
  nothing is decoded, the scan finds neither device, and \<open>success\<close> is true with no error.
\<close>

theorem failed_fallback_reports_success:
  "operatingPoint (parseNgSpiceOutput []) = None
   \<and> parseTransientData [] = None
   \<and> foldl scanLine (None, None) (splitOn (CHR 0x0A) (fst (generateSimpleSpiceNetlist (\<lambda>x. []) []))) = (None, None)
   \<and> simulate (\<lambda>x. []) [] (Closed (Some 0) [] []) =
       \<lparr>success = True, operatingPoint = Some [], resultMap = Some [(''0'', 0)],
        transientData = Some \<lparr>time = [Num 0, toDouble (1 / 1000)], voltages = [], currents = []\<rparr>,
        error = None\<rparr>"
  by code_simp

lemma op_no_data: "operatingPoint (parseNgSpiceOutput ''no data'') = None"
  by code_simp

lemma resistor_only_no_source:
  "filter isVLine (splitOn (CHR 0x0A) (fst (generateSimpleSpiceNetlist (\<lambda>x. []) [resistorAG, junctionAB]))) = []"
  by code_simp

theorem fallback_without_topology_reports_success_witness:
  "runNgSpice (\<lambda>x. []) (Some (fst (generateSimpleSpiceNetlist (\<lambda>x. []) [resistorAG, junctionAB]))) (Closed (Some 0) ''no data'' []) =
     \<lparr>success = True, operatingPoint = Some [], resultMap = None,
      transientData = Some \<lparr>time = [Num 0, toDouble (1 / 1000)], voltages = [], currents = []\<rparr>,
      error = None\<rparr>"
  using fallback_without_topology_reports_success[OF op_no_data disjI1[OF resistor_only_no_source], of "\<lambda>x. []" "[]"]
  by blast

end
